theory Spec2Isabelle
  imports Complex_Main
begin

section \<open>Vocal-analysis report service: data model\<close>

text \<open>
  The development follows \<^verbatim>\<open>backend/fetch_ai_service.py\<close>. Python's \<^verbatim>\<open>float\<close> is
  idealised as \<^typ>\<open>real\<close> (no rounding, no NaN, no infinities), Python's \<^verbatim>\<open>int\<close> is
  \<^typ>\<open>int\<close>, and a \<^verbatim>\<open>str\<close> is a \<^typ>\<open>string\<close> whose characters are the code points
  below 256. An exception that a call raises is the \<open>Inl\<close> branch of its result; the
  exceptions modelled are the instances of \<^verbatim>\<open>Exception\<close>, which is what the handlers
  of the source catch. A \<^verbatim>\<open>datetime\<close> is a count of microseconds on one time line.
\<close>

datatype exn = ValueError | StatisticsError | Exception string

datatype TrendDirection = UP | DOWN | STABLE

fun trend_value :: "TrendDirection \<Rightarrow> string" where
  "trend_value UP = ''up''"
| "trend_value DOWN = ''down''"
| "trend_value STABLE = ''baseline''"

record SessionMetrics =
  timestamp :: int
  mean_pitch :: real
  vibrato_rate :: real
  jitter :: real
  shimmer :: real
  dynamics :: string
  voice_type :: string
  lowest_note :: string
  highest_note :: string

text \<open>
  The fields \<^verbatim>\<open>lowest_note\<close> and \<^verbatim>\<open>highest_note\<close> of \<^verbatim>\<open>DailyMetrics\<close> and the fields
  \<^verbatim>\<open>date\<close> and \<^verbatim>\<open>id\<close> of \<^verbatim>\<open>FetchAiReport\<close> carry a prefix here, since a field name
  is a constant of the theory.
\<close>

record DailyMetrics =
  date :: string
  session_count :: int
  mean_pitch_avg :: real
  vibrato_rate_avg :: real
  jitter_avg :: real
  shimmer_avg :: real
  dynamics_mode :: string
  voice_type_mode :: string
  day_lowest_note :: string
  day_highest_note :: string
  pitch_stability :: real
  practice_consistency :: real

record MetricComparison =
  current :: real
  previous :: "real option"
  change :: "real option"
  trend :: string
  improvement_percentage :: "real option"

text \<open>
  The values that \<^verbatim>\<open>json.loads\<close> builds: \<^verbatim>\<open>None\<close>, a truth value, a number, a string, a
  list, or a dictionary (the list of its items). A Python list of strings is a \<open>JArray\<close>
  of \<open>JString\<close>s.
\<close>

datatype json =
  JNull
| JBool bool
| JNumber real
| JString string
| JArray "json list"
| JObject "(string \<times> json) list"

definition py_str_list :: "string list \<Rightarrow> json" where
  "py_str_list xs = JArray (map JString xs)"

fun is_str :: "json \<Rightarrow> bool" where
  "is_str (JString s) = True"
| "is_str v = False"

fun is_str_list :: "json \<Rightarrow> bool" where
  "is_str_list (JArray vs) = list_all is_str vs"
| "is_str_list v = False"

text \<open>
  The \<^verbatim>\<open>metrics\<close> dictionary is the list of its items in insertion order; the source
  stores five distinct keys. The fields \<^verbatim>\<open>insights\<close> and \<^verbatim>\<open>recommendations\<close> are annotated
  as lists of strings; a dataclass does not check its annotations, and what the source
  stores there can come out of a JSON document, so the two fields hold \<^typ>\<open>json\<close> values.
\<close>

record FetchAiReport =
  report_date :: string
  report_id :: string
  summary :: string
  metrics :: "(string \<times> MetricComparison) list"
  insights :: json
  recommendations :: json
  practice_sessions :: int
  total_practice_time :: real
  best_time_of_day :: string

section \<open>Collaborators and runtime\<close>

text \<open>
  The content of a reply of the text-generation service with status 200, as
  \<^verbatim>\<open>json.loads\<close> sees it: \<open>Parsed v\<close> is a content that parses to the value \<open>v\<close>,
  \<open>NotJson s\<close> is a content \<open>s\<close> on which \<^verbatim>\<open>json.loads\<close> raises \<^verbatim>\<open>JSONDecodeError\<close>.
\<close>

datatype asi1_content =
  Parsed json
| NotJson string

text \<open>
  Everything outside the service that a run depends on:
  \<^item> \<open>supabase\<close>: the client, absent without credentials; a present client maps user and
    date to the outcome of the query together with the decoding of its rows (both
    happen inside one \<^verbatim>\<open>try\<close> block);
  \<^item> \<open>use_ai\<close> and \<open>asi1_post\<close>: the request built from the two texts either raises or
    yields a status code and the outcome of reading the content out of the body (an
    exception when the body is no JSON, lacks the path to the content, or the content
    is no string);
  \<^item> \<open>now\<close>: the clock;
  \<^item> \<open>set_order\<close>: the order in which \<^verbatim>\<open>set(...)\<close>, built from the given sequence of
    values, is iterated;
  \<^item> \<open>previous_day\<close>: \<^verbatim>\<open>strptime\<close> with \<^verbatim>\<open>%Y-%m-%d\<close>, one day back, \<^verbatim>\<open>strftime\<close>;
  \<^item> \<open>strftime_day\<close>: \<^verbatim>\<open>strftime\<close> with \<^verbatim>\<open>%Y-%m-%d\<close>;
  \<^item> \<open>format_float\<close>: the format \<^verbatim>\<open>.nf\<close> of a number.
\<close>

record env =
  supabase :: "(string \<Rightarrow> string \<Rightarrow> exn + SessionMetrics list) option"
  use_ai :: bool
  asi1_post :: "string \<Rightarrow> string \<Rightarrow> exn + (nat \<times> (exn + asi1_content))"
  now :: int
  set_order :: "string list \<Rightarrow> string list"
  previous_day :: "string \<Rightarrow> exn + string"
  strftime_day :: "int \<Rightarrow> string"
  format_float :: "nat \<Rightarrow> real \<Rightarrow> string"

text \<open>A set holds each of the values once and nothing else; its order is not determined.\<close>

definition set_order_ok :: "env \<Rightarrow> bool" where
  "set_order_ok e = (\<forall>xs. set (set_order e xs) = set xs \<and> distinct (set_order e xs))"

section \<open>Built-in functions of Python\<close>

definition is_decimal_digit :: "char \<Rightarrow> bool" where
  "is_decimal_digit c = (48 \<le> (of_char c :: nat) \<and> (of_char c :: nat) \<le> 57)"

text \<open>
  \<^verbatim>\<open>int(s)\<close> for a string \<open>s\<close> of one character: the digit's value for a decimal digit,
  \<^verbatim>\<open>ValueError\<close> for every other character.
\<close>

definition py_int_char :: "char \<Rightarrow> exn + int" where
  "py_int_char c = (if is_decimal_digit c then Inr (int (of_char c) - 48) else Inl ValueError)"

text \<open>\<^verbatim>\<open>list.index\<close>: the position of the first equal element, \<^verbatim>\<open>ValueError\<close> if there is none.\<close>

fun py_index :: "'a list \<Rightarrow> 'a \<Rightarrow> exn + nat" where
  "py_index [] x = Inl ValueError"
| "py_index (y # ys) x = (if y = x then Inr 0 else map_sum id Suc (py_index ys x))"

text \<open>\<^verbatim>\<open>d.get(k, default)\<close> on a dictionary.\<close>

definition py_get :: "(string \<times> json) list \<Rightarrow> string \<Rightarrow> json \<Rightarrow> json" where
  "py_get items k dflt = (case map_of items k of None \<Rightarrow> dflt | Some v \<Rightarrow> v)"

text \<open>
  \<^verbatim>\<open>max(xs, key=f)\<close> and \<^verbatim>\<open>min(xs, key=f)\<close>: the key of each item is computed in turn
  (and may raise); the item kept is replaced only by one whose key is strictly greater
  (strictly smaller), so the first extremal item is returned. An empty iterable raises
  \<^verbatim>\<open>ValueError\<close>.
\<close>

fun max_loop :: "('a \<Rightarrow> exn + 'k::linorder) \<Rightarrow> 'a \<Rightarrow> 'k \<Rightarrow> 'a list \<Rightarrow> exn + 'a" where
  "max_loop key best kb [] = Inr best"
| "max_loop key best kb (x # xs) =
     (case key x of
        Inl e \<Rightarrow> Inl e
      | Inr k \<Rightarrow> if k > kb then max_loop key x k xs else max_loop key best kb xs)"

definition py_max :: "'a list \<Rightarrow> ('a \<Rightarrow> exn + 'k::linorder) \<Rightarrow> exn + 'a" where
  "py_max xs key =
     (case xs of
        [] \<Rightarrow> Inl ValueError
      | x # ys \<Rightarrow> (case key x of Inl e \<Rightarrow> Inl e | Inr k \<Rightarrow> max_loop key x k ys))"

fun min_loop :: "('a \<Rightarrow> exn + 'k::linorder) \<Rightarrow> 'a \<Rightarrow> 'k \<Rightarrow> 'a list \<Rightarrow> exn + 'a" where
  "min_loop key best kb [] = Inr best"
| "min_loop key best kb (x # xs) =
     (case key x of
        Inl e \<Rightarrow> Inl e
      | Inr k \<Rightarrow> if k < kb then min_loop key x k xs else min_loop key best kb xs)"

definition py_min :: "'a list \<Rightarrow> ('a \<Rightarrow> exn + 'k::linorder) \<Rightarrow> exn + 'a" where
  "py_min xs key =
     (case xs of
        [] \<Rightarrow> Inl ValueError
      | x # ys \<Rightarrow> (case key x of Inl e \<Rightarrow> Inl e | Inr k \<Rightarrow> min_loop key x k ys))"

text \<open>\<^verbatim>\<open>str(n)\<close> for an integer.\<close>

function str_nat :: "nat \<Rightarrow> string" where
  "str_nat n =
     (if n < 10 then [char_of (48 + n)]
      else str_nat (n div 10) @ [char_of (48 + n mod 10)])"
  by pat_completeness auto
termination
  by (relation "measure id") auto

definition str_int :: "int \<Rightarrow> string" where
  "str_int i = (if i < 0 then ''-'' @ str_nat (nat (- i)) else str_nat (nat i))"

text \<open>\<^verbatim>\<open>s.lower()\<close>, \<^verbatim>\<open>p in s\<close> and \<^verbatim>\<open>s.split(d)\<close> for a separator of one character.\<close>

definition lower_char :: "char \<Rightarrow> char" where
  "lower_char c =
     (let n = (of_char c :: nat)
      in if (65 \<le> n \<and> n \<le> 90) \<or> (192 \<le> n \<and> n \<le> 222 \<and> n \<noteq> 215) then char_of (n + 32) else c)"

definition lower :: "string \<Rightarrow> string" where
  "lower s = map lower_char s"

fun contains :: "string \<Rightarrow> string \<Rightarrow> bool" where
  "contains [] p = (p = [])"
| "contains (c # cs) p = (take (length p) (c # cs) = p \<or> contains cs p)"

fun split_on :: "char \<Rightarrow> string \<Rightarrow> string list" where
  "split_on d [] = [[]]"
| "split_on d (c # cs) =
     (if c = d then [] # split_on d cs
      else (case split_on d cs of [] \<Rightarrow> [[c]] | p # ps \<Rightarrow> (c # p) # ps))"

section \<open>The statistics module\<close>

text \<open>
  \<^verbatim>\<open>statistics.mean\<close> raises \<^verbatim>\<open>StatisticsError\<close> on no data, \<^verbatim>\<open>statistics.stdev\<close> on
  fewer than two values. The deviation is the square root of the sum of the squared
  distances from the mean over one less than the number of values.
\<close>

definition statistics_mean :: "real list \<Rightarrow> exn + real" where
  "statistics_mean xs =
     (if xs = [] then Inl StatisticsError else Inr (sum_list xs / real (length xs)))"

definition statistics_stdev :: "real list \<Rightarrow> exn + real" where
  "statistics_stdev xs =
     (if length xs < 2 then Inl StatisticsError
      else
        let c = sum_list xs / real (length xs);
            ss = sum_list (map (\<lambda>x. (x - c) ^ 2) xs)
        in Inr (sqrt (ss / real (length xs - 1))))"

section \<open>Note names to frequencies\<close>

definition note_names :: "string list" where
  "note_names =
     [''C'', ''C#'', ''D'', ''D#'', ''E'', ''F'', ''F#'', ''G'', ''G#'', ''A'', ''A#'', ''B'']"

text \<open>
  \<^verbatim>\<open>_note_to_frequency\<close>. The octave is read from the last character before the name
  is looked up, so that conversion can raise.
\<close>

definition note_to_frequency :: "string \<Rightarrow> exn + real" where
  "note_to_frequency note =
     (if length note < 2 then Inr 0
      else
        let note_name = butlast note
        in case py_int_char (last note) of
             Inl e \<Rightarrow> Inl e
           | Inr octave \<Rightarrow>
               if note_name \<notin> set note_names then Inr 0
               else
                 (case py_index note_names note_name of
                    Inl e \<Rightarrow> Inl e
                  | Inr note_index \<Rightarrow>
                      Inr (440 * 2 powr ((real note_index - 9) / 12 + (real_of_int octave - 4)))))"

text \<open>
  The note strings on which the conversion does not raise: those of fewer than two
  characters and those that end in a decimal digit. The note format of a session record
  (a letter, an optional sharp, an octave digit) is of the second kind.
\<close>

definition note_accepted :: "string \<Rightarrow> bool" where
  "note_accepted note = (length note < 2 \<or> is_decimal_digit (last note))"

definition notes_accepted :: "SessionMetrics list \<Rightarrow> bool" where
  "notes_accepted sessions =
     list_all (\<lambda>s. note_accepted (lowest_note s) \<and> note_accepted (highest_note s)) sessions"

section \<open>Trend engine\<close>

text \<open>\<^verbatim>\<open>_calculate_improvement\<close>.\<close>

definition calculate_improvement :: "real \<Rightarrow> real \<Rightarrow> real \<times> string" where
  "calculate_improvement cur prev =
     (if prev = 0 then (0, trend_value STABLE)
      else
        let change_pct = ((cur - prev) / prev) * 100
        in if \<bar>change_pct\<bar> < 1 then (change_pct, trend_value STABLE)
           else (change_pct, if change_pct > 0 then trend_value UP else trend_value DOWN))"

section \<open>Daily aggregator\<close>

text \<open>
  \<^verbatim>\<open>_aggregate_daily_metrics\<close>. The two modes are maxima over a \<^verbatim>\<open>set\<close> of the values,
  keyed by the number of sessions with that value; the extremal notes are a minimum and
  a maximum over the sessions, keyed by frequency.
\<close>

definition aggregate_daily_metrics :: "env \<Rightarrow> SessionMetrics list \<Rightarrow> exn + DailyMetrics option" where
  "aggregate_daily_metrics e sessions =
     (case sessions of
        [] \<Rightarrow> Inr None
      | s0 # _ \<Rightarrow>
          let mean_pitches = map mean_pitch sessions;
              vibrato_rates = map vibrato_rate sessions;
              jitters = map jitter sessions;
              shimmers = map shimmer sessions
          in case py_max (set_order e (map dynamics sessions))
                    (\<lambda>x. Inr (int (length (filter (\<lambda>s. dynamics s = x) sessions)))) of
               Inl ex \<Rightarrow> Inl ex
             | Inr dyn \<Rightarrow>
          (case py_max (set_order e (map voice_type sessions))
                    (\<lambda>x. Inr (int (length (filter (\<lambda>s. voice_type s = x) sessions)))) of
               Inl ex \<Rightarrow> Inl ex
             | Inr vt \<Rightarrow>
          (case py_min sessions (\<lambda>x. note_to_frequency (lowest_note x)) of
               Inl ex \<Rightarrow> Inl ex
             | Inr lo \<Rightarrow>
          (case py_max sessions (\<lambda>x. note_to_frequency (highest_note x)) of
               Inl ex \<Rightarrow> Inl ex
             | Inr hi \<Rightarrow>
          (let timestamps = map timestamp sessions
           in case py_max timestamps Inr of
               Inl ex \<Rightarrow> Inl ex
             | Inr t_max \<Rightarrow>
          (case py_min timestamps Inr of
               Inl ex \<Rightarrow> Inl ex
             | Inr t_min \<Rightarrow>
          (let time_spread = real_of_int (t_max - t_min) / 1000000 / 3600
           in case statistics_mean mean_pitches of
               Inl ex \<Rightarrow> Inl ex
             | Inr mp \<Rightarrow>
          (case statistics_mean vibrato_rates of
               Inl ex \<Rightarrow> Inl ex
             | Inr vr \<Rightarrow>
          (case statistics_mean jitters of
               Inl ex \<Rightarrow> Inl ex
             | Inr ji \<Rightarrow>
          (case statistics_mean shimmers of
               Inl ex \<Rightarrow> Inl ex
             | Inr sh \<Rightarrow>
          (case (if length mean_pitches > 1 then statistics_stdev mean_pitches else Inr 0) of
               Inl ex \<Rightarrow> Inl ex
             | Inr stab \<Rightarrow>
               Inr (Some \<lparr>date = strftime_day e (timestamp s0),
                          session_count = int (length sessions),
                          mean_pitch_avg = mp,
                          vibrato_rate_avg = vr,
                          jitter_avg = ji,
                          shimmer_avg = sh,
                          dynamics_mode = dyn,
                          voice_type_mode = vt,
                          day_lowest_note = lowest_note lo,
                          day_highest_note = highest_note hi,
                          pitch_stability = stab,
                          practice_consistency = time_spread\<rparr>))))))))))))"

section \<open>Insights from the text-generation service\<close>

text \<open>\<^verbatim>\<open>_get_fallback_insights\<close>.\<close>

definition get_fallback_insights :: "json \<times> json" where
  "get_fallback_insights =
     (py_str_list
        [''Your vocal practice shows consistent improvement patterns.'',
         ''Maintaining regular practice sessions will enhance your progress.'',
         ''Your pitch accuracy is developing well with continued practice.''],
      py_str_list
        [''Continue with daily vocal warm-ups for 10-15 minutes.'',
         ''Practice breathing exercises to improve vocal control.'',
         ''Record yourself regularly to track your progress.''])"

text \<open>
  \<^verbatim>\<open>_get_ai_insights\<close>. Every exception inside its \<^verbatim>\<open>try\<close> block, an
  \<^verbatim>\<open>AttributeError\<close> of \<^verbatim>\<open>get\<close> on a parsed content that is no dictionary included, ends
  in the fallback insights; only \<^verbatim>\<open>JSONDecodeError\<close> is handled by filtering the lines of
  the content. The values found under the two keys of a dictionary are returned as they
  are.
\<close>

definition get_ai_insights :: "env \<Rightarrow> string \<Rightarrow> string \<Rightarrow> json \<times> json" where
  "get_ai_insights e metrics_data user_context =
     (if \<not> use_ai e then
        (py_str_list
           [''Your pitch stability has improved by 15% this week!'',
            ''Consider practicing in the morning for better vocal clarity.'',
            ''Your vibrato rate is within optimal range for your voice type.''],
         py_str_list
           [''Try vocal warm-ups before each practice session.'',
            ''Focus on breath control exercises for better dynamics.'',
            ''Practice scales in your comfortable range daily.''])
      else
        (case asi1_post e metrics_data user_context of
           Inl ex \<Rightarrow> get_fallback_insights
         | Inr (status_code, body) \<Rightarrow>
             if status_code = 200 then
               (case body of
                  Inl ex \<Rightarrow> get_fallback_insights
                | Inr (Parsed ai_data) \<Rightarrow>
                    (case ai_data of
                       JObject items \<Rightarrow>
                         (py_get items ''insights'' (JArray []),
                          py_get items ''recommendations'' (JArray []))
                     | _ \<Rightarrow> get_fallback_insights)
                | Inr (NotJson content) \<Rightarrow>
                    (let lines = split_on (CHR 0x0A) content
                     in (py_str_list
                           (take 3 (filter (\<lambda>line. contains (lower line) ''insight''
                                              \<or> contains (lower line) ''improved'') lines)),
                         py_str_list
                           (take 3 (filter (\<lambda>line. contains (lower line) ''recommend''
                                              \<or> contains (lower line) ''try'') lines)))))
             else get_fallback_insights))"

section \<open>Session store\<close>

text \<open>
  \<^verbatim>\<open>_get_daily_sessions\<close>: two fixed sessions without a client (the clock is read twice;
  both readings are taken to be \<open>now\<close>); with a client the sessions it yields, and no
  sessions when the query or the decoding raises.
\<close>

definition get_daily_sessions :: "env \<Rightarrow> string \<Rightarrow> string \<Rightarrow> SessionMetrics list" where
  "get_daily_sessions e user_id d =
     (case supabase e of
        None \<Rightarrow>
          [\<lparr>timestamp = now e, mean_pitch = 220.5, vibrato_rate = 5.8, jitter = 0.012,
            shimmer = 0.017, dynamics = ''stable'', voice_type = ''tenor'',
            lowest_note = ''C3'', highest_note = ''A4''\<rparr>,
           \<lparr>timestamp = now e - 7200000000, mean_pitch = 225.1, vibrato_rate = 6.2,
            jitter = 0.011, shimmer = 0.016, dynamics = ''stable'', voice_type = ''tenor'',
            lowest_note = ''D3'', highest_note = ''B4''\<rparr>]
      | Some client \<Rightarrow>
          (case client user_id d of
             Inl ex \<Rightarrow> []
           | Inr rows \<Rightarrow> rows))"

section \<open>Report assembler\<close>

text \<open>\<^verbatim>\<open>_generate_summary\<close>.\<close>

definition generate_summary :: "DailyMetrics \<Rightarrow> DailyMetrics option \<Rightarrow> string" where
  "generate_summary cur prev =
     (case prev of
        Some p \<Rightarrow>
          if session_count cur > session_count p then
            ''Excellent progress today! You completed '' @ str_int (session_count cur)
              @ '' practice sessions, showing increased dedication to your vocal development.''
          else if session_count cur = session_count p then
            ''Consistent practice maintained with '' @ str_int (session_count cur)
              @ '' sessions today. Your vocal technique continues to develop steadily.''
          else
            ''Completed '' @ str_int (session_count cur)
              @ '' practice sessions today. Consider increasing practice frequency for optimal progress.''
      | None \<Rightarrow>
          ''Great start! You completed '' @ str_int (session_count cur)
            @ '' practice sessions today. Keep up the momentum!'')"

text \<open>\<^verbatim>\<open>_generate_fallback_report\<close>.\<close>

definition generate_fallback_report :: "string \<Rightarrow> string \<Rightarrow> FetchAiReport" where
  "generate_fallback_report user_id d =
     \<lparr>report_date = d,
      report_id = ''fallback_'' @ user_id @ ''_'' @ d,
      summary = ''No practice sessions recorded for this date. Start practicing to see your vocal analysis!'',
      metrics = [],
      insights = py_str_list
                   [''Begin with daily vocal warm-ups'', ''Practice breathing exercises'',
                    ''Record your sessions to track progress''],
      recommendations = py_str_list
                          [''Start with 10-minute daily sessions'',
                           ''Focus on proper breathing technique'',
                           ''Use the practice feature regularly''],
      practice_sessions = 0,
      total_practice_time = 0,
      best_time_of_day = ''Morning''\<rparr>"

text \<open>
  The comparison table that \<^verbatim>\<open>generate_daily_report\<close> fills in (the assignments to
  \<^verbatim>\<open>metrics[...]\<close>), entry by entry as the source writes them: the four vocal metrics
  stand the current value in for a missing previous one, the session count stands in 0.
\<close>

definition metric_comparisons :: "DailyMetrics \<Rightarrow> DailyMetrics option \<Rightarrow> (string \<times> MetricComparison) list" where
  "metric_comparisons daily_metrics previous_metrics =
     [(''mean_pitch'',
       \<lparr>current = mean_pitch_avg daily_metrics,
        previous = (case previous_metrics of Some p \<Rightarrow> Some (mean_pitch_avg p) | None \<Rightarrow> None),
        change = Some (mean_pitch_avg daily_metrics
                   - (case previous_metrics of Some p \<Rightarrow> mean_pitch_avg p
                      | None \<Rightarrow> mean_pitch_avg daily_metrics)),
        trend = snd (calculate_improvement (mean_pitch_avg daily_metrics)
                   (case previous_metrics of Some p \<Rightarrow> mean_pitch_avg p
                    | None \<Rightarrow> mean_pitch_avg daily_metrics)),
        improvement_percentage = Some (fst (calculate_improvement (mean_pitch_avg daily_metrics)
                   (case previous_metrics of Some p \<Rightarrow> mean_pitch_avg p
                    | None \<Rightarrow> mean_pitch_avg daily_metrics)))\<rparr>),
      (''vibrato_rate'',
       \<lparr>current = vibrato_rate_avg daily_metrics,
        previous = (case previous_metrics of Some p \<Rightarrow> Some (vibrato_rate_avg p) | None \<Rightarrow> None),
        change = Some (vibrato_rate_avg daily_metrics
                   - (case previous_metrics of Some p \<Rightarrow> vibrato_rate_avg p
                      | None \<Rightarrow> vibrato_rate_avg daily_metrics)),
        trend = snd (calculate_improvement (vibrato_rate_avg daily_metrics)
                   (case previous_metrics of Some p \<Rightarrow> vibrato_rate_avg p
                    | None \<Rightarrow> vibrato_rate_avg daily_metrics)),
        improvement_percentage = Some (fst (calculate_improvement (vibrato_rate_avg daily_metrics)
                   (case previous_metrics of Some p \<Rightarrow> vibrato_rate_avg p
                    | None \<Rightarrow> vibrato_rate_avg daily_metrics)))\<rparr>),
      (''jitter'',
       \<lparr>current = jitter_avg daily_metrics,
        previous = (case previous_metrics of Some p \<Rightarrow> Some (jitter_avg p) | None \<Rightarrow> None),
        change = Some (jitter_avg daily_metrics
                   - (case previous_metrics of Some p \<Rightarrow> jitter_avg p
                      | None \<Rightarrow> jitter_avg daily_metrics)),
        trend = snd (calculate_improvement (jitter_avg daily_metrics)
                   (case previous_metrics of Some p \<Rightarrow> jitter_avg p
                    | None \<Rightarrow> jitter_avg daily_metrics)),
        improvement_percentage = Some (fst (calculate_improvement (jitter_avg daily_metrics)
                   (case previous_metrics of Some p \<Rightarrow> jitter_avg p
                    | None \<Rightarrow> jitter_avg daily_metrics)))\<rparr>),
      (''shimmer'',
       \<lparr>current = shimmer_avg daily_metrics,
        previous = (case previous_metrics of Some p \<Rightarrow> Some (shimmer_avg p) | None \<Rightarrow> None),
        change = Some (shimmer_avg daily_metrics
                   - (case previous_metrics of Some p \<Rightarrow> shimmer_avg p
                      | None \<Rightarrow> shimmer_avg daily_metrics)),
        trend = snd (calculate_improvement (shimmer_avg daily_metrics)
                   (case previous_metrics of Some p \<Rightarrow> shimmer_avg p
                    | None \<Rightarrow> shimmer_avg daily_metrics)),
        improvement_percentage = Some (fst (calculate_improvement (shimmer_avg daily_metrics)
                   (case previous_metrics of Some p \<Rightarrow> shimmer_avg p
                    | None \<Rightarrow> shimmer_avg daily_metrics)))\<rparr>),
      (''total_sessions'',
       \<lparr>current = real_of_int (session_count daily_metrics),
        previous = (case previous_metrics of Some p \<Rightarrow> Some (real_of_int (session_count p))
                    | None \<Rightarrow> None),
        change = Some (real_of_int (session_count daily_metrics
                   - (case previous_metrics of Some p \<Rightarrow> session_count p | None \<Rightarrow> 0))),
        trend = snd (calculate_improvement (real_of_int (session_count daily_metrics))
                   (real_of_int (case previous_metrics of Some p \<Rightarrow> session_count p | None \<Rightarrow> 0))),
        improvement_percentage = Some (fst (calculate_improvement
                   (real_of_int (session_count daily_metrics))
                   (real_of_int (case previous_metrics of Some p \<Rightarrow> session_count p
                                 | None \<Rightarrow> 0))))\<rparr>)]"

text \<open>The text \<^verbatim>\<open>metrics_data\<close> handed to the text-generation service.\<close>

definition metrics_data_text :: "env \<Rightarrow> string \<Rightarrow> DailyMetrics \<Rightarrow> string" where
  "metrics_data_text e d daily_metrics =
     (let nl = [CHR 0x0A] @ replicate 12 (CHR '' '')
      in nl @ ''Date: '' @ d
       @ nl @ ''Sessions: '' @ str_int (session_count daily_metrics)
       @ nl @ ''Mean Pitch: '' @ format_float e 2 (mean_pitch_avg daily_metrics) @ '' Hz''
       @ nl @ ''Vibrato Rate: '' @ format_float e 2 (vibrato_rate_avg daily_metrics) @ '' Hz''
       @ nl @ ''Jitter: '' @ format_float e 4 (jitter_avg daily_metrics)
       @ nl @ ''Shimmer: '' @ format_float e 4 (shimmer_avg daily_metrics)
       @ nl @ ''Voice Type: '' @ voice_type_mode daily_metrics
       @ nl @ ''Vocal Range: '' @ day_lowest_note daily_metrics @ '' to ''
            @ day_highest_note daily_metrics
       @ nl @ ''Pitch Stability: '' @ format_float e 2 (pitch_stability daily_metrics)
       @ nl @ ''Practice Consistency: '' @ format_float e 1 (practice_consistency daily_metrics)
            @ '' hours''
       @ nl)"

text \<open>
  The body of the \<^verbatim>\<open>try\<close> block of \<^verbatim>\<open>generate_daily_report\<close>: an \<open>Inl\<close> is an
  exception that leaves the block.
\<close>

definition generate_daily_report_body :: "env \<Rightarrow> string \<Rightarrow> string \<Rightarrow> exn + FetchAiReport" where
  "generate_daily_report_body e user_id d =
     (let sessions = get_daily_sessions e user_id d
      in if sessions = [] then Inr (generate_fallback_report user_id d)
         else
           (case aggregate_daily_metrics e sessions of
              Inl ex \<Rightarrow> Inl ex
            | Inr None \<Rightarrow> Inr (generate_fallback_report user_id d)
            | Inr (Some daily_metrics) \<Rightarrow>
                (case previous_day e d of
                   Inl ex \<Rightarrow> Inl ex
                 | Inr previous_date \<Rightarrow>
                     (let previous_sessions = get_daily_sessions e user_id previous_date
                      in case (if previous_sessions \<noteq> []
                               then aggregate_daily_metrics e previous_sessions
                               else Inr None) of
                           Inl ex \<Rightarrow> Inl ex
                         | Inr previous_metrics \<Rightarrow>
                             (let metrics_data = metrics_data_text e d daily_metrics;
                                  user_context = ''User '' @ user_id
                                    @ '' practicing vocal techniques with ''
                                    @ str_int (session_count daily_metrics)
                                    @ '' sessions on '' @ d;
                                  ai = get_ai_insights e metrics_data user_context;
                                  summary_text = generate_summary daily_metrics previous_metrics;
                                  practice_time = session_count daily_metrics * 15
                              in Inr \<lparr>report_date = d,
                                      report_id = ''report_'' @ user_id @ ''_'' @ d,
                                      summary = summary_text,
                                      metrics = metric_comparisons daily_metrics previous_metrics,
                                      insights = fst ai,
                                      recommendations = snd ai,
                                      practice_sessions = session_count daily_metrics,
                                      total_practice_time = real_of_int practice_time,
                                      best_time_of_day = ''Morning (9-11 AM)''\<rparr>)))))"

text \<open>
  \<^verbatim>\<open>generate_daily_report\<close>: the handler of the \<^verbatim>\<open>try\<close> block turns an exception into
  the fallback report.
\<close>

definition generate_daily_report :: "env \<Rightarrow> string \<Rightarrow> string \<Rightarrow> exn + FetchAiReport" where
  "generate_daily_report e user_id d =
     (case generate_daily_report_body e user_id d of
        Inl ex \<Rightarrow> Inr (generate_fallback_report user_id d)
      | Inr report \<Rightarrow> Inr report)"

section \<open>Reference notions and sample data\<close>

text \<open>
  The mode in the words of the specification: among the values of a sequence, the one
  that occurs most often, the first one seen winning a tie. The first function below
  looks for the first value with the highest count along any given order of the values.
\<close>

definition first_with_highest_count :: "string list \<Rightarrow> string list \<Rightarrow> string option" where
  "first_with_highest_count order xs =
     find (\<lambda>x. \<forall>y \<in> set xs. count_list xs y \<le> count_list xs x) order"

definition first_seen_mode :: "string list \<Rightarrow> string option" where
  "first_seen_mode xs = first_with_highest_count xs xs"

text \<open>
  A report as its annotations describe it: insights and recommendations are lists of
  strings. The other fields have their annotated types in every report of the model.
\<close>

definition structurally_valid :: "FetchAiReport \<Rightarrow> bool" where
  "structurally_valid r = (is_str_list (insights r) \<and> is_str_list (recommendations r))"

text \<open>The entry of a report's comparison table under a key.\<close>

definition report_metric :: "exn + FetchAiReport \<Rightarrow> string \<Rightarrow> MetricComparison option" where
  "report_metric res k = (case res of Inl ex \<Rightarrow> None | Inr r \<Rightarrow> map_of (metrics r) k)"

text \<open>Three sessions; the third has a lowest note that does not end in a digit.\<close>

definition soft_session :: SessionMetrics where
  "soft_session =
     \<lparr>timestamp = 0, mean_pitch = 220, vibrato_rate = 6, jitter = 0.01, shimmer = 0.02,
      dynamics = ''soft'', voice_type = ''tenor'', lowest_note = ''C3'', highest_note = ''A4''\<rparr>"

definition loud_session :: SessionMetrics where
  "loud_session =
     \<lparr>timestamp = 7200000000, mean_pitch = 222, vibrato_rate = 5, jitter = 0.03, shimmer = 0.04,
      dynamics = ''loud'', voice_type = ''bass'', lowest_note = ''D3'', highest_note = ''B4''\<rparr>"

definition flat_session :: SessionMetrics where
  "flat_session =
     \<lparr>timestamp = 0, mean_pitch = 220, vibrato_rate = 6, jitter = 0.01, shimmer = 0.02,
      dynamics = ''soft'', voice_type = ''tenor'', lowest_note = ''Ab'', highest_note = ''A4''\<rparr>"

text \<open>
  Stores: one with two sessions on 2024-01-02 and none on any other day, one that has a
  session on the day before as well, one whose only session carries the note \<^verbatim>\<open>Ab\<close>, and
  one whose every query raises.
\<close>

definition first_day_store :: "string \<Rightarrow> string \<Rightarrow> exn + SessionMetrics list" where
  "first_day_store user_id d =
     (if d = ''2024-01-02'' then Inr [soft_session, loud_session] else Inr [])"

definition two_day_store :: "string \<Rightarrow> string \<Rightarrow> exn + SessionMetrics list" where
  "two_day_store user_id d =
     (if d = ''2024-01-02'' then Inr [soft_session, loud_session]
      else if d = ''2024-01-01'' then Inr [soft_session]
      else Inr [])"

definition flat_store :: "string \<Rightarrow> string \<Rightarrow> exn + SessionMetrics list" where
  "flat_store user_id d = Inr [flat_session]"

definition broken_store :: "string \<Rightarrow> string \<Rightarrow> exn + SessionMetrics list" where
  "broken_store user_id d = Inl (Exception ''connection refused'')"

definition sample_previous_day :: "string \<Rightarrow> exn + string" where
  "sample_previous_day d = (if d = ''2024-01-02'' then Inr ''2024-01-01'' else Inl ValueError)"

definition sample_env :: "(string \<Rightarrow> string \<Rightarrow> exn + SessionMetrics list) \<Rightarrow> env" where
  "sample_env store =
     \<lparr>supabase = Some store,
      use_ai = False,
      asi1_post = (\<lambda>metrics_data user_context. Inl (Exception ''offline'')),
      now = 0,
      set_order = remdups,
      previous_day = sample_previous_day,
      strftime_day = (\<lambda>t. ''2024-01-02''),
      format_float = (\<lambda>n x. ''0'')\<rparr>"

text \<open>The same runtime with sets iterated in the opposite order.\<close>

definition reversed_env :: env where
  "reversed_env = (sample_env first_day_store)\<lparr>set_order := rev \<circ> remdups\<rparr>"

text \<open>A runtime with the text-generation service switched on and timing out.\<close>

definition timeout_post :: "string \<Rightarrow> string \<Rightarrow> exn + (nat \<times> (exn + asi1_content))" where
  "timeout_post metrics_data user_context = Inl (Exception ''Timeout'')"

definition online_env :: env where
  "online_env = (sample_env first_day_store)\<lparr>use_ai := True, asi1_post := timeout_post\<rparr>"

text \<open>
  A runtime whose text-generation service answers with status 200 and a JSON object
  that has the string \<^verbatim>\<open>practice more\<close> under \<^verbatim>\<open>insights\<close> and \<^verbatim>\<open>null\<close> under
  \<^verbatim>\<open>recommendations\<close>.
\<close>

definition mistyped_post :: "string \<Rightarrow> string \<Rightarrow> exn + (nat \<times> (exn + asi1_content))" where
  "mistyped_post metrics_data user_context =
     Inr (200, Inr (Parsed (JObject [(''insights'', JString ''practice more''),
                                     (''recommendations'', JNull)])))"

definition mistyped_env :: env where
  "mistyped_env = (sample_env first_day_store)\<lparr>use_ai := True, asi1_post := mistyped_post\<rparr>"

section \<open>Properties of the built-in functions\<close>

lemma py_index_member: "x \<in> set xs \<Longrightarrow> \<exists>i. py_index xs x = Inr i"
  by (induction xs) auto

lemma py_int_char_digit: "is_decimal_digit c \<Longrightarrow> \<exists>n. py_int_char c = Inr n"
  by (simp add: py_int_char_def)

lemma py_int_char_other: "\<not> is_decimal_digit c \<Longrightarrow> py_int_char c = Inl ValueError"
  by (simp add: py_int_char_def)

section \<open>The note converter\<close>

lemma note_to_frequency_short: "length note < 2 \<Longrightarrow> note_to_frequency note = Inr 0"
  by (simp add: note_to_frequency_def)

lemma note_to_frequency_unknown:
  assumes "2 \<le> length note" and "is_decimal_digit (last note)"
    and "butlast note \<notin> set note_names"
  shows "note_to_frequency note = Inr 0"
proof -
  obtain n where "py_int_char (last note) = Inr n"
    using py_int_char_digit [OF assms(2)] by blast
  with assms show ?thesis
    by (simp add: note_to_frequency_def)
qed

lemma note_to_frequency_non_digit:
  assumes "2 \<le> length note" and "\<not> is_decimal_digit (last note)"
  shows "note_to_frequency note = Inl ValueError"
  using assms py_int_char_other [OF assms(2)]
  by (simp add: note_to_frequency_def)

lemma note_to_frequency_known:
  assumes "2 \<le> length note" and "py_int_char (last note) = Inr n"
    and "butlast note \<in> set note_names" and "py_index note_names (butlast note) = Inr i"
  shows "note_to_frequency note = Inr (440 * 2 powr ((real i - 9) / 12 + (real_of_int n - 4)))"
proof -
  have "\<not> length note < 2" using assms(1) by simp
  then show ?thesis
    unfolding note_to_frequency_def Let_def
    by (simp only: if_False assms(2) assms(3) assms(4) sum.case not_True_eq_False simp_thms)
qed

lemma note_to_frequency_accepted:
  assumes "note_accepted note"
  shows "\<exists>f. note_to_frequency note = Inr f"
proof (cases "length note < 2")
  case True
  from note_to_frequency_short [OF True] show ?thesis by (rule exI)
next
  case False
  from assms False have digit: "is_decimal_digit (last note)"
    unfolding note_accepted_def by blast
  from py_int_char_digit [OF digit] obtain n where n: "py_int_char (last note) = Inr n" ..
  from False have long: "2 \<le> length note" by simp
  show ?thesis
  proof (cases "butlast note \<in> set note_names")
    case True
    from py_index_member [OF True]
    obtain i where i: "py_index note_names (butlast note) = Inr i" ..
    from note_to_frequency_known [OF long n True i] show ?thesis by (rule exI)
  next
    case unknown: False
    from note_to_frequency_unknown [OF long digit unknown] show ?thesis by (rule exI)
  qed
qed

lemma two_powr_pow4: "((2::real) powr (- 3 / 4)) ^ 4 = 1 / 8"
proof -
  have "((2::real) powr (- 3 / 4)) ^ 4 = (2 powr (- 3 / 4)) powr (real 4)"
    by (subst powr_realpow) simp_all
  also have "\<dots> = 2 powr (- 3 / 4 * real 4)"
    by (simp only: powr_powr)
  also have "\<dots> = 2 powr (- 3)" by simp
  also have "\<dots> = 1 / 8" by (simp add: powr_minus_divide)
  finally show ?thesis .
qed

lemma two_powr_lower: "594603 / 1000000 < (2::real) powr (- 3 / 4)"
proof (rule ccontr)
  assume "\<not> 594603 / 1000000 < (2::real) powr (- 3 / 4)"
  then have "(2::real) powr (- 3 / 4) \<le> 594603 / 1000000" by simp
  then have "((2::real) powr (- 3 / 4)) ^ 4 \<le> (594603 / 1000000) ^ 4"
    by (rule power_mono) simp
  then show False
    unfolding two_powr_pow4 by (simp add: power4_eq_xxxx)
qed

lemma two_powr_upper: "(2::real) powr (- 3 / 4) < 594605 / 1000000"
proof (rule ccontr)
  assume "\<not> (2::real) powr (- 3 / 4) < 594605 / 1000000"
  then have "594605 / 1000000 \<le> (2::real) powr (- 3 / 4)" by simp
  then have "(594605 / 1000000) ^ 4 \<le> ((2::real) powr (- 3 / 4)) ^ 4"
    by (rule power_mono) simp
  then show False
    unfolding two_powr_pow4 by (simp add: power4_eq_xxxx)
qed

lemma frequency_window:
  fixes x :: real
  assumes "594603 / 1000000 < x" and "x < 594605 / 1000000"
  shows "\<bar>440 * x - 26163 / 100\<bar> < 5 / 1000"
  using assms by (simp add: abs_less_iff)

lemma middle_c: "note_to_frequency ''C4'' = Inr (440 * 2 powr (- 3 / 4))"
  by (simp add: note_to_frequency_def py_int_char_def is_decimal_digit_def note_names_def)

text \<open>
  C1. The claim: the converter is total over all strings and returns 0 on every
  malformed note, the notes \<^verbatim>\<open>Ab\<close> and \<^verbatim>\<open>C#x\<close> included. The source reads the octave
  with \<^verbatim>\<open>int\<close> before it looks at the name: on these two notes, whose last character is
  no digit, it raises \<^verbatim>\<open>ValueError\<close> instead of returning 0.
\<close>

theorem note_to_frequency_raises_on_non_digit:
  "note_to_frequency ''Ab'' = Inl ValueError \<and> note_to_frequency ''C#x'' = Inl ValueError"
  by (simp add: note_to_frequency_def py_int_char_def is_decimal_digit_def)

text \<open>
  C7. The anchors of equal temperament: \<^verbatim>\<open>A4\<close> is 440, \<^verbatim>\<open>A5\<close> is 880, \<^verbatim>\<open>C4\<close> is 261.63
  to two decimals, and the empty string, \<^verbatim>\<open>Z4\<close> and \<^verbatim>\<open>A\<close> give 0.
\<close>

theorem note_to_frequency_anchors:
  "note_to_frequency ''A4'' = Inr 440 \<and>
   note_to_frequency ''A5'' = Inr 880 \<and>
   (\<exists>f. note_to_frequency ''C4'' = Inr f \<and> \<bar>f - 261.63\<bar> < 0.005) \<and>
   note_to_frequency '''' = Inr 0 \<and>
   note_to_frequency ''Z4'' = Inr 0 \<and>
   note_to_frequency ''A'' = Inr 0"
proof -
  have a4: "note_to_frequency ''A4'' = Inr 440"
    by (simp add: note_to_frequency_def py_int_char_def is_decimal_digit_def note_names_def)
  have a5: "note_to_frequency ''A5'' = Inr 880"
    by (simp add: note_to_frequency_def py_int_char_def is_decimal_digit_def note_names_def)
  have "\<bar>440 * (2::real) powr (- 3 / 4) - 261.63\<bar> < 0.005"
    using frequency_window [OF two_powr_lower two_powr_upper] by simp
  then have c4: "\<exists>f. note_to_frequency ''C4'' = Inr f \<and> \<bar>f - 261.63\<bar> < 0.005"
    using middle_c by blast
  have e: "note_to_frequency '''' = Inr 0"
    by (simp add: note_to_frequency_def)
  have z4: "note_to_frequency ''Z4'' = Inr 0"
    by (simp add: note_to_frequency_def py_int_char_def is_decimal_digit_def note_names_def)
  have a: "note_to_frequency ''A'' = Inr 0"
    by (simp add: note_to_frequency_def)
  from a4 a5 c4 e z4 a show ?thesis by blast
qed

section \<open>The trend engine\<close>

lemma calculate_improvement_zero: "calculate_improvement c 0 = (0, ''baseline'')"
  by (simp add: calculate_improvement_def)

lemma calculate_improvement_unfold:
  assumes "p \<noteq> 0" and "q = (c - p) / p * 100"
  shows "calculate_improvement c p =
     (q, if \<bar>q\<bar> < 1 then ''baseline'' else if q > 0 then ''up'' else ''down'')"
  using assms(1) unfolding calculate_improvement_def Let_def assms(2) [symmetric]
  by simp

text \<open>
  C3. With a previous value of 0 the engine returns 0 and \<^verbatim>\<open>baseline\<close>; otherwise it
  returns the percent change, which is \<^verbatim>\<open>baseline\<close> when its absolute value is below 1,
  \<^verbatim>\<open>up\<close> when it is at least 1 and \<^verbatim>\<open>down\<close> when it is at most -1; and the three
  sample comparisons come out as stated.
\<close>

theorem calculate_improvement_spec:
  "(p = 0 \<longrightarrow> calculate_improvement c p = (0, ''baseline'')) \<and>
   (p \<noteq> 0 \<longrightarrow>
      fst (calculate_improvement c p) = (c - p) / p * 100 \<and>
      (snd (calculate_improvement c p) = ''baseline'' \<longleftrightarrow> \<bar>(c - p) / p * 100\<bar> < 1) \<and>
      (snd (calculate_improvement c p) = ''up'' \<longleftrightarrow> (c - p) / p * 100 \<ge> 1) \<and>
      (snd (calculate_improvement c p) = ''down'' \<longleftrightarrow> (c - p) / p * 100 \<le> - 1)) \<and>
   calculate_improvement 110 100 = (10, ''up'') \<and>
   calculate_improvement 90 100 = (- 10, ''down'') \<and>
   calculate_improvement 100.5 100 = (0.5, ''baseline'')"
proof -
  define q where "q = (c - p) / p * 100"
  have general: "p \<noteq> 0 \<longrightarrow>
      fst (calculate_improvement c p) = q \<and>
      (snd (calculate_improvement c p) = ''baseline'' \<longleftrightarrow> \<bar>q\<bar> < 1) \<and>
      (snd (calculate_improvement c p) = ''up'' \<longleftrightarrow> q \<ge> 1) \<and>
      (snd (calculate_improvement c p) = ''down'' \<longleftrightarrow> q \<le> - 1)"
  proof
    assume "p \<noteq> 0"
    from calculate_improvement_unfold [OF this q_def]
    show "fst (calculate_improvement c p) = q \<and>
      (snd (calculate_improvement c p) = ''baseline'' \<longleftrightarrow> \<bar>q\<bar> < 1) \<and>
      (snd (calculate_improvement c p) = ''up'' \<longleftrightarrow> q \<ge> 1) \<and>
      (snd (calculate_improvement c p) = ''down'' \<longleftrightarrow> q \<le> - 1)"
      by auto
  qed
  have e1: "calculate_improvement 110 100 = (10, ''up'')"
    by (simp add: calculate_improvement_def)
  have e2: "calculate_improvement 90 100 = (- 10, ''down'')"
    by (simp add: calculate_improvement_def)
  have e3: "calculate_improvement 100.5 100 = (0.5, ''baseline'')"
    by (simp add: calculate_improvement_def)
  from general e1 e2 e3 calculate_improvement_zero show ?thesis
    unfolding q_def by blast
qed

theorem calculate_improvement_spec_witness:
  "(100::real) \<noteq> 0 \<and>
   fst (calculate_improvement 103 100) = 3 \<and> snd (calculate_improvement 103 100) = ''up'' \<and>
   calculate_improvement 7 0 = (0, ''baseline'')"
  using calculate_improvement_spec [of 100 103] calculate_improvement_spec [of 0 7]
  by simp

section \<open>Maxima and minima\<close>

lemma max_loop_total:
  assumes "\<forall>x \<in> set xs. \<exists>k. key x = Inr k"
  shows "\<exists>r. max_loop key best kb xs = Inr r \<and> r \<in> set (best # xs)"
  using assms
proof (induction xs arbitrary: best kb)
  case Nil
  show ?case by simp
next
  case (Cons x xs)
  from Cons.prems obtain k where k: "key x = Inr k" by auto
  from Cons.prems have rest: "\<forall>y \<in> set xs. \<exists>k. key y = Inr k" by simp
  show ?case
  proof (cases "k > kb")
    case True
    from Cons.IH [OF rest, of x k] obtain r
      where "max_loop key x k xs = Inr r" and "r \<in> set (x # xs)" by blast
    with k True show ?thesis by simp
  next
    case False
    from Cons.IH [OF rest, of best kb] obtain r
      where "max_loop key best kb xs = Inr r" and "r \<in> set (best # xs)" by blast
    with k False show ?thesis by auto
  qed
qed

lemma min_loop_total:
  assumes "\<forall>x \<in> set xs. \<exists>k. key x = Inr k"
  shows "\<exists>r. min_loop key best kb xs = Inr r \<and> r \<in> set (best # xs)"
  using assms
proof (induction xs arbitrary: best kb)
  case Nil
  show ?case by simp
next
  case (Cons x xs)
  from Cons.prems obtain k where k: "key x = Inr k" by auto
  from Cons.prems have rest: "\<forall>y \<in> set xs. \<exists>k. key y = Inr k" by simp
  show ?case
  proof (cases "k < kb")
    case True
    from Cons.IH [OF rest, of x k] obtain r
      where "min_loop key x k xs = Inr r" and "r \<in> set (x # xs)" by blast
    with k True show ?thesis by simp
  next
    case False
    from Cons.IH [OF rest, of best kb] obtain r
      where "min_loop key best kb xs = Inr r" and "r \<in> set (best # xs)" by blast
    with k False show ?thesis by auto
  qed
qed

lemma py_max_total:
  assumes "xs \<noteq> []" and "\<forall>x \<in> set xs. \<exists>k. key x = Inr k"
  shows "\<exists>r. py_max xs key = Inr r \<and> r \<in> set xs"
proof -
  from assms(1) obtain x ys where xs: "xs = x # ys" by (cases xs) auto
  with assms(2) obtain k where k: "key x = Inr k" by auto
  from assms(2) xs have "\<forall>y \<in> set ys. \<exists>k. key y = Inr k" by simp
  from max_loop_total [OF this, of x k] xs k show ?thesis
    by (simp add: py_max_def)
qed

lemma py_min_total:
  assumes "xs \<noteq> []" and "\<forall>x \<in> set xs. \<exists>k. key x = Inr k"
  shows "\<exists>r. py_min xs key = Inr r \<and> r \<in> set xs"
proof -
  from assms(1) obtain x ys where xs: "xs = x # ys" by (cases xs) auto
  with assms(2) obtain k where k: "key x = Inr k" by auto
  from assms(2) xs have "\<forall>y \<in> set ys. \<exists>k. key y = Inr k" by simp
  from min_loop_total [OF this, of x k] xs k show ?thesis
    by (simp add: py_min_def)
qed

text \<open>With a key that cannot raise, the maximum is the first item of highest key.\<close>

lemma max_loop_first:
  "\<exists>r pre post. max_loop (\<lambda>x. Inr (f x)) best (f best) xs = Inr r \<and>
     best # xs = pre @ r # post \<and>
     (\<forall>y \<in> set pre. f y < f r) \<and> (\<forall>y \<in> set post. f y \<le> f r)"
proof (induction xs arbitrary: best)
  case Nil
  show ?case
    by (intro exI [of _ best] exI [of _ "[]"]) simp
next
  case (Cons x xs)
  show ?case
  proof (cases "f x > f best")
    case True
    from Cons.IH [of x] obtain r pre post
      where run: "max_loop (\<lambda>x. Inr (f x)) x (f x) xs = Inr r"
        and split: "x # xs = pre @ r # post"
        and before: "\<forall>y \<in> set pre. f y < f r"
        and after: "\<forall>y \<in> set post. f y \<le> f r"
      by blast
    have "f x \<le> f r"
    proof (cases pre)
      case Nil
      with split show ?thesis by simp
    next
      case (Cons p ps)
      with split have "x \<in> set pre" by simp
      with before show ?thesis by auto
    qed
    with True have low: "f best < f r" by simp
    from run True have "max_loop (\<lambda>x. Inr (f x)) best (f best) (x # xs) = Inr r"
      by simp
    moreover from split have "best # x # xs = (best # pre) @ r # post" by simp
    moreover from low before have "\<forall>y \<in> set (best # pre). f y < f r" by simp
    ultimately show ?thesis using after by blast
  next
    case False
    from Cons.IH [of best] obtain r pre post
      where run: "max_loop (\<lambda>x. Inr (f x)) best (f best) xs = Inr r"
        and split: "best # xs = pre @ r # post"
        and before: "\<forall>y \<in> set pre. f y < f r"
        and after: "\<forall>y \<in> set post. f y \<le> f r"
      by blast
    from run False have loop: "max_loop (\<lambda>x. Inr (f x)) best (f best) (x # xs) = Inr r"
      by simp
    show ?thesis
    proof (cases pre)
      case Nil
      with split have r: "r = best" and post: "post = xs" by simp_all
      from False r after post have "\<forall>y \<in> set (x # xs). f y \<le> f r" by simp
      with loop r show ?thesis
        by (intro exI [of _ r] exI [of _ "[]"] exI [of _ "x # xs"]) simp
    next
      case (Cons p ps)
      with split have p: "p = best" and tail: "xs = ps @ r # post" by simp_all
      from p Cons before have "f best < f r" by simp
      with False have "f x < f r" by simp
      with before Cons p have "\<forall>y \<in> set (best # x # ps). f y < f r" by simp
      moreover from tail have "best # x # xs = (best # x # ps) @ r # post" by simp
      ultimately show ?thesis using loop after by blast
    qed
  qed
qed

lemma py_max_first:
  assumes "xs \<noteq> []"
  shows "\<exists>r pre post. py_max xs (\<lambda>x. Inr (f x)) = Inr r \<and> xs = pre @ r # post \<and>
     (\<forall>y \<in> set pre. f y < f r) \<and> (\<forall>y \<in> set post. f y \<le> f r)"
proof -
  from assms obtain x ys where xs: "xs = x # ys" by (cases xs) auto
  have "py_max xs (\<lambda>x. Inr (f x)) = max_loop (\<lambda>x. Inr (f x)) x (f x) ys"
    by (simp add: py_max_def xs)
  with max_loop_first [of f x ys] xs show ?thesis by simp
qed

lemma find_first_highest:
  fixes f :: "'a \<Rightarrow> 'k::linorder"
  assumes "\<forall>y \<in> set pre. f y < f r" and "\<forall>y \<in> set post. f y \<le> f r"
  shows "find (\<lambda>x. \<forall>y \<in> set (pre @ r # post). f y \<le> f x) (pre @ r # post) = Some r"
proof -
  have top: "\<forall>y \<in> set (pre @ r # post). f y \<le> f r"
    using assms by auto
  have "find (\<lambda>x. \<forall>y \<in> S. f y \<le> f x) (pre @ r # post) = Some r"
    if "\<forall>y \<in> S. f y \<le> f r" and "r \<in> S" for S
    using assms(1) that
  proof (induction pre)
    case Nil
    then show ?case by simp
  next
    case (Cons p ps)
    then have "f p < f r" by simp
    with \<open>r \<in> S\<close> have no: "\<not> (\<forall>y \<in> S. f y \<le> f p)" by (auto simp: not_le)
    from Cons.prems have "\<forall>y \<in> set ps. f y < f r" by simp
    from Cons.IH [OF this Cons.prems(2) Cons.prems(3)] no show ?case by auto
  qed
  from this [OF top] show ?thesis by simp
qed

section \<open>The aggregator\<close>

lemma statistics_mean_value:
  "xs \<noteq> [] \<Longrightarrow> statistics_mean xs = Inr (sum_list xs / real (length xs))"
  by (simp add: statistics_mean_def)

lemma statistics_stdev_value:
  "1 < length xs \<Longrightarrow>
   statistics_stdev xs =
     Inr (sqrt (sum_list (map (\<lambda>x. (x - sum_list xs / real (length xs)) ^ 2) xs)
            / real (length xs - 1)))"
  by (simp add: statistics_stdev_def Let_def)

lemma notes_accepted_keys:
  assumes "notes_accepted sessions"
  shows "\<forall>s \<in> set sessions. \<exists>k. note_to_frequency (lowest_note s) = Inr k"
    and "\<forall>s \<in> set sessions. \<exists>k. note_to_frequency (highest_note s) = Inr k"
  using assms note_to_frequency_accepted
  by (auto simp: notes_accepted_def list_all_iff)

lemma set_order_nonempty:
  assumes "set_order_ok e" and "xs \<noteq> []"
  shows "set_order e xs \<noteq> []"
proof
  assume "set_order e xs = []"
  then have "set (set_order e xs) = {}" by simp
  with assms(1) have "set xs = {}" by (simp add: set_order_ok_def)
  with assms(2) show False by simp
qed

lemma aggregate_result:
  assumes ne: "sessions \<noteq> []" and ord: "set_order_ok e" and acc: "notes_accepted sessions"
  obtains dyn vt and lo hi :: SessionMetrics and t_max t_min where
    "py_max (set_order e (map dynamics sessions))
      (\<lambda>x. Inr (int (length (filter (\<lambda>s. dynamics s = x) sessions)))) = Inr dyn"
    and "py_max (set_order e (map voice_type sessions))
      (\<lambda>x. Inr (int (length (filter (\<lambda>s. voice_type s = x) sessions)))) = Inr vt"
    and "aggregate_daily_metrics e sessions =
      Inr (Some \<lparr>date = strftime_day e (timestamp (hd sessions)),
                 session_count = int (length sessions),
                 mean_pitch_avg = sum_list (map mean_pitch sessions) / real (length sessions),
                 vibrato_rate_avg = sum_list (map vibrato_rate sessions) / real (length sessions),
                 jitter_avg = sum_list (map jitter sessions) / real (length sessions),
                 shimmer_avg = sum_list (map shimmer sessions) / real (length sessions),
                 dynamics_mode = dyn,
                 voice_type_mode = vt,
                 day_lowest_note = lowest_note lo,
                 day_highest_note = highest_note hi,
                 pitch_stability =
                   (if 1 < length sessions
                    then sqrt (sum_list (map (\<lambda>x. (x - sum_list (map mean_pitch sessions)
                                  / real (length sessions)) ^ 2) (map mean_pitch sessions))
                           / real (length sessions - 1))
                    else 0),
                 practice_consistency = real_of_int (t_max - t_min) / 1000000 / 3600\<rparr>)"
proof -
  from ne have dne: "set_order e (map dynamics sessions) \<noteq> []"
    and vne: "set_order e (map voice_type sessions) \<noteq> []"
    using set_order_nonempty [OF ord] by simp_all
  from py_max_first [OF dne, of "\<lambda>x. int (length (filter (\<lambda>s. dynamics s = x) sessions))"]
  obtain dyn
    where dyn: "py_max (set_order e (map dynamics sessions))
      (\<lambda>x. Inr (int (length (filter (\<lambda>s. dynamics s = x) sessions)))) = Inr dyn"
    by (elim exE conjE)
  from py_max_first [OF vne, of "\<lambda>x. int (length (filter (\<lambda>s. voice_type s = x) sessions))"]
  obtain vt
    where vt: "py_max (set_order e (map voice_type sessions))
      (\<lambda>x. Inr (int (length (filter (\<lambda>s. voice_type s = x) sessions)))) = Inr vt"
    by (elim exE conjE)
  from py_min_total [of sessions "\<lambda>x. note_to_frequency (lowest_note x)",
      OF ne notes_accepted_keys(1) [OF acc]]
  obtain lo
    where lo: "py_min sessions (\<lambda>x. note_to_frequency (lowest_note x)) = Inr lo"
    by (elim exE conjE)
  from py_max_total [of sessions "\<lambda>x. note_to_frequency (highest_note x)",
      OF ne notes_accepted_keys(2) [OF acc]]
  obtain hi
    where hi: "py_max sessions (\<lambda>x. note_to_frequency (highest_note x)) = Inr hi"
    by (elim exE conjE)
  from ne have tne: "map timestamp sessions \<noteq> []" by simp
  have keys: "\<forall>t \<in> set (map timestamp sessions). \<exists>k. (Inr t :: exn + int) = Inr k"
    by simp
  from py_max_total [of "map timestamp sessions" Inr, OF tne keys] obtain t_max
    where t_max: "py_max (map timestamp sessions) Inr = (Inr t_max :: exn + int)"
    by (elim exE conjE)
  from py_min_total [of "map timestamp sessions" Inr, OF tne keys] obtain t_min
    where t_min: "py_min (map timestamp sessions) Inr = (Inr t_min :: exn + int)"
    by (elim exE conjE)
  have mp: "statistics_mean (map mean_pitch sessions) =
      Inr (sum_list (map mean_pitch sessions) / real (length sessions))"
    using ne by (simp add: statistics_mean_value)
  have vr: "statistics_mean (map vibrato_rate sessions) =
      Inr (sum_list (map vibrato_rate sessions) / real (length sessions))"
    using ne by (simp add: statistics_mean_value)
  have ji: "statistics_mean (map jitter sessions) =
      Inr (sum_list (map jitter sessions) / real (length sessions))"
    using ne by (simp add: statistics_mean_value)
  have sh: "statistics_mean (map shimmer sessions) =
      Inr (sum_list (map shimmer sessions) / real (length sessions))"
    using ne by (simp add: statistics_mean_value)
  have stab: "(if length (map mean_pitch sessions) > 1
        then statistics_stdev (map mean_pitch sessions) else Inr 0) =
      Inr (if 1 < length sessions
           then sqrt (sum_list (map (\<lambda>x. (x - sum_list (map mean_pitch sessions)
                         / real (length sessions)) ^ 2) (map mean_pitch sessions))
                  / real (length sessions - 1))
           else 0)"
    by (simp add: statistics_stdev_value)
  have agg: "aggregate_daily_metrics e sessions =
      Inr (Some \<lparr>date = strftime_day e (timestamp (hd sessions)),
                 session_count = int (length sessions),
                 mean_pitch_avg = sum_list (map mean_pitch sessions) / real (length sessions),
                 vibrato_rate_avg = sum_list (map vibrato_rate sessions) / real (length sessions),
                 jitter_avg = sum_list (map jitter sessions) / real (length sessions),
                 shimmer_avg = sum_list (map shimmer sessions) / real (length sessions),
                 dynamics_mode = dyn,
                 voice_type_mode = vt,
                 day_lowest_note = lowest_note lo,
                 day_highest_note = highest_note hi,
                 pitch_stability =
                   (if 1 < length sessions
                    then sqrt (sum_list (map (\<lambda>x. (x - sum_list (map mean_pitch sessions)
                                  / real (length sessions)) ^ 2) (map mean_pitch sessions))
                           / real (length sessions - 1))
                    else 0),
                 practice_consistency = real_of_int (t_max - t_min) / 1000000 / 3600\<rparr>)"
    unfolding aggregate_daily_metrics_def Let_def list.case_eq_if
    by (simp only: ne if_False dyn vt lo hi t_max t_min mp vr ji sh stab sum.case option.case)
  from that [OF dyn vt agg] show thesis .
qed

lemma count_by_filter: "length (filter (\<lambda>s. f s = x) ss) = count_list (map f ss) x"
  by (induction ss) auto

lemma mode_key:
  "(\<lambda>x. Inr (int (length (filter (\<lambda>s. f s = x) ss))) :: exn + int) =
   (\<lambda>x. Inr (int (count_list (map f ss) x)))"
  by (simp add: count_by_filter)

lemma py_max_mode:
  assumes ord: "set_order_ok e" and ne: "xs \<noteq> []"
    and run: "py_max (set_order e xs) (\<lambda>x. Inr (int (count_list xs x))) = Inr r"
  shows "first_with_highest_count (set_order e xs) xs = Some r \<and> r \<in> set xs \<and>
     (\<forall>v \<in> set xs. count_list xs v \<le> count_list xs r)"
proof -
  from ord have same: "set (set_order e xs) = set xs"
    by (simp add: set_order_ok_def)
  from set_order_nonempty [OF ord ne]
    py_max_first [of "set_order e xs" "\<lambda>x. int (count_list xs x)"]
  obtain r' pre post
    where run': "py_max (set_order e xs) (\<lambda>x. Inr (int (count_list xs x))) = Inr r'"
      and split: "set_order e xs = pre @ r' # post"
      and before: "\<forall>y \<in> set pre. int (count_list xs y) < int (count_list xs r')"
      and after: "\<forall>y \<in> set post. int (count_list xs y) \<le> int (count_list xs r')"
    by blast
  from run run' have r: "r' = r" by simp
  from before r have b: "\<forall>y \<in> set pre. count_list xs y < count_list xs r" by simp
  from after r have a: "\<forall>y \<in> set post. count_list xs y \<le> count_list xs r" by simp
  from find_first_highest [OF b a]
  have "find (\<lambda>x. \<forall>y \<in> set (set_order e xs). count_list xs y \<le> count_list xs x)
          (set_order e xs) = Some r"
    using split r by simp
  then have first: "first_with_highest_count (set_order e xs) xs = Some r"
    by (simp add: first_with_highest_count_def same)
  from split r same have mem: "r \<in> set xs" by auto
  from a b split r same have top: "\<forall>v \<in> set xs. count_list xs v \<le> count_list xs r"
    by (auto simp: less_imp_le)
  from first mem top show ?thesis by blast
qed

lemma sample_order_ok: "set_order_ok (sample_env store)"
  by (simp add: set_order_ok_def sample_env_def)

lemma sample_notes_accepted: "notes_accepted [soft_session, loud_session]"
  by (simp add: notes_accepted_def note_accepted_def soft_session_def loud_session_def
      is_decimal_digit_def)

text \<open>
  C4, as the source has it. For a non-empty sequence of sessions the aggregator returns
  daily metrics whose two modes are values that occur among the sessions with the
  highest count; among several values of highest count the one chosen is the first in
  the iteration order of the \<^verbatim>\<open>set\<close> of the values, which the order of the sessions does
  not determine. The statement is about sessions whose notes the converter accepts; on
  the others the aggregator raises.
\<close>

theorem aggregate_modes:
  assumes "sessions \<noteq> []" and "set_order_ok e" and "notes_accepted sessions"
  shows "\<exists>m. aggregate_daily_metrics e sessions = Inr (Some m) \<and>
    dynamics_mode m \<in> set (map dynamics sessions) \<and>
    (\<forall>v \<in> set (map dynamics sessions).
       count_list (map dynamics sessions) v \<le> count_list (map dynamics sessions) (dynamics_mode m)) \<and>
    first_with_highest_count (set_order e (map dynamics sessions)) (map dynamics sessions)
      = Some (dynamics_mode m) \<and>
    voice_type_mode m \<in> set (map voice_type sessions) \<and>
    (\<forall>v \<in> set (map voice_type sessions).
       count_list (map voice_type sessions) v
         \<le> count_list (map voice_type sessions) (voice_type_mode m)) \<and>
    first_with_highest_count (set_order e (map voice_type sessions)) (map voice_type sessions)
      = Some (voice_type_mode m)"
proof -
  from aggregate_result [OF assms] obtain dyn vt and lo hi :: SessionMetrics and t_max t_min
    where dyn: "py_max (set_order e (map dynamics sessions))
        (\<lambda>x. Inr (int (length (filter (\<lambda>s. dynamics s = x) sessions)))) = Inr dyn"
      and vt: "py_max (set_order e (map voice_type sessions))
        (\<lambda>x. Inr (int (length (filter (\<lambda>s. voice_type s = x) sessions)))) = Inr vt"
      and agg: "aggregate_daily_metrics e sessions =
        Inr (Some \<lparr>date = strftime_day e (timestamp (hd sessions)),
                 session_count = int (length sessions),
                 mean_pitch_avg = sum_list (map mean_pitch sessions) / real (length sessions),
                 vibrato_rate_avg = sum_list (map vibrato_rate sessions) / real (length sessions),
                 jitter_avg = sum_list (map jitter sessions) / real (length sessions),
                 shimmer_avg = sum_list (map shimmer sessions) / real (length sessions),
                 dynamics_mode = dyn,
                 voice_type_mode = vt,
                 day_lowest_note = lowest_note lo,
                 day_highest_note = highest_note hi,
                 pitch_stability =
                   (if 1 < length sessions
                    then sqrt (sum_list (map (\<lambda>x. (x - sum_list (map mean_pitch sessions)
                                  / real (length sessions)) ^ 2) (map mean_pitch sessions))
                           / real (length sessions - 1))
                    else 0),
                 practice_consistency = real_of_int (t_max - t_min) / 1000000 / 3600\<rparr>)"
    by this
  from assms(1) have dne: "map dynamics sessions \<noteq> []" and vne: "map voice_type sessions \<noteq> []"
    by simp_all
  from dyn have "py_max (set_order e (map dynamics sessions))
        (\<lambda>x. Inr (int (count_list (map dynamics sessions) x))) = Inr dyn"
    by (simp only: mode_key)
  from py_max_mode [OF assms(2) dne this]
  have d: "first_with_highest_count (set_order e (map dynamics sessions)) (map dynamics sessions)
        = Some dyn \<and> dyn \<in> set (map dynamics sessions) \<and>
      (\<forall>v \<in> set (map dynamics sessions).
         count_list (map dynamics sessions) v \<le> count_list (map dynamics sessions) dyn)" .
  from vt have "py_max (set_order e (map voice_type sessions))
        (\<lambda>x. Inr (int (count_list (map voice_type sessions) x))) = Inr vt"
    by (simp only: mode_key)
  from py_max_mode [OF assms(2) vne this]
  have v: "first_with_highest_count (set_order e (map voice_type sessions))
        (map voice_type sessions) = Some vt \<and> vt \<in> set (map voice_type sessions) \<and>
      (\<forall>v \<in> set (map voice_type sessions).
         count_list (map voice_type sessions) v \<le> count_list (map voice_type sessions) vt)" .
  from agg d v show ?thesis by simp
qed

theorem aggregate_modes_witness:
  "[soft_session, loud_session] \<noteq> [] \<and> set_order_ok reversed_env \<and>
   notes_accepted [soft_session, loud_session] \<and>
   (\<exists>m. aggregate_daily_metrics reversed_env [soft_session, loud_session] = Inr (Some m) \<and>
        first_with_highest_count [''loud'', ''soft''] [''soft'', ''loud''] = Some (dynamics_mode m))"
proof -
  have ok: "set_order_ok reversed_env"
    by (simp add: set_order_ok_def reversed_env_def sample_env_def)
  have ne: "[soft_session, loud_session] \<noteq> []" by simp
  have order: "set_order reversed_env (map dynamics [soft_session, loud_session]) = [''loud'', ''soft'']"
    by (simp add: reversed_env_def sample_env_def soft_session_def loud_session_def)
  have vals: "map dynamics [soft_session, loud_session] = [''soft'', ''loud'']"
    by (simp add: soft_session_def loud_session_def)
  from aggregate_modes [OF ne ok sample_notes_accepted] order vals
  show ?thesis using ok sample_notes_accepted by auto
qed

text \<open>
  C4 as stated fails: with two sessions, \<^verbatim>\<open>soft\<close> then \<^verbatim>\<open>loud\<close>, and a set that
  iterates \<^verbatim>\<open>loud\<close> first, the mode is \<^verbatim>\<open>loud\<close>, while the first value seen among the
  tied ones is \<^verbatim>\<open>soft\<close>.
\<close>

theorem first_seen_tie_counterexample:
  "map_sum id (map_option dynamics_mode)
     (aggregate_daily_metrics reversed_env [soft_session, loud_session]) = Inr (Some ''loud'') \<and>
   first_seen_mode (map dynamics [soft_session, loud_session]) = Some ''soft''"
  by (simp add: aggregate_daily_metrics_def reversed_env_def sample_env_def soft_session_def
      loud_session_def py_max_def py_min_def note_to_frequency_def py_int_char_def
      is_decimal_digit_def note_names_def statistics_mean_def statistics_stdev_def
      first_seen_mode_def first_with_highest_count_def)

section \<open>Counts, means and pitch stability\<close>

text \<open>
  On sessions whose notes the converter accepts the aggregator returns daily metrics
  with the number of sessions and the arithmetic means of the four numeric fields.
\<close>

lemma aggregate_means_accepted:
  assumes "sessions \<noteq> []" and "set_order_ok e" and "notes_accepted sessions"
  shows "\<exists>m. aggregate_daily_metrics e sessions = Inr (Some m) \<and>
    session_count m = int (length sessions) \<and>
    mean_pitch_avg m = (\<Sum>s\<leftarrow>sessions. mean_pitch s) / real (length sessions) \<and>
    vibrato_rate_avg m = (\<Sum>s\<leftarrow>sessions. vibrato_rate s) / real (length sessions) \<and>
    jitter_avg m = (\<Sum>s\<leftarrow>sessions. jitter s) / real (length sessions) \<and>
    shimmer_avg m = (\<Sum>s\<leftarrow>sessions. shimmer s) / real (length sessions)"
proof -
  from aggregate_result [OF assms] obtain dyn vt and lo hi :: SessionMetrics and t_max t_min
    where "aggregate_daily_metrics e sessions =
        Inr (Some \<lparr>date = strftime_day e (timestamp (hd sessions)),
                 session_count = int (length sessions),
                 mean_pitch_avg = sum_list (map mean_pitch sessions) / real (length sessions),
                 vibrato_rate_avg = sum_list (map vibrato_rate sessions) / real (length sessions),
                 jitter_avg = sum_list (map jitter sessions) / real (length sessions),
                 shimmer_avg = sum_list (map shimmer sessions) / real (length sessions),
                 dynamics_mode = dyn,
                 voice_type_mode = vt,
                 day_lowest_note = lowest_note lo,
                 day_highest_note = highest_note hi,
                 pitch_stability =
                   (if 1 < length sessions
                    then sqrt (sum_list (map (\<lambda>x. (x - sum_list (map mean_pitch sessions)
                                  / real (length sessions)) ^ 2) (map mean_pitch sessions))
                           / real (length sessions - 1))
                    else 0),
                 practice_consistency = real_of_int (t_max - t_min) / 1000000 / 3600\<rparr>)"
    by this
  then show ?thesis by simp
qed

lemma aggregate_empty: "aggregate_daily_metrics e [] = Inr None"
  by (simp add: aggregate_daily_metrics_def)

text \<open>
  On such sessions the pitch stability is 0 for one session and, for two or more, the
  square root of the squared distances from the mean, summed and divided by one less
  than the number of sessions.
\<close>

lemma aggregate_stability_accepted:
  assumes "sessions \<noteq> []" and "set_order_ok e" and "notes_accepted sessions"
  shows "\<exists>m. aggregate_daily_metrics e sessions = Inr (Some m) \<and>
    (length sessions = 1 \<longrightarrow> pitch_stability m = 0) \<and>
    (2 \<le> length sessions \<longrightarrow>
       pitch_stability m =
         sqrt ((\<Sum>s\<leftarrow>sessions. (mean_pitch s
                   - (\<Sum>s\<leftarrow>sessions. mean_pitch s) / real (length sessions)) ^ 2)
               / (real (length sessions) - 1)))"
proof -
  from aggregate_result [OF assms] obtain dyn vt and lo hi :: SessionMetrics and t_max t_min
    where agg: "aggregate_daily_metrics e sessions =
        Inr (Some \<lparr>date = strftime_day e (timestamp (hd sessions)),
                 session_count = int (length sessions),
                 mean_pitch_avg = sum_list (map mean_pitch sessions) / real (length sessions),
                 vibrato_rate_avg = sum_list (map vibrato_rate sessions) / real (length sessions),
                 jitter_avg = sum_list (map jitter sessions) / real (length sessions),
                 shimmer_avg = sum_list (map shimmer sessions) / real (length sessions),
                 dynamics_mode = dyn,
                 voice_type_mode = vt,
                 day_lowest_note = lowest_note lo,
                 day_highest_note = highest_note hi,
                 pitch_stability =
                   (if 1 < length sessions
                    then sqrt (sum_list (map (\<lambda>x. (x - sum_list (map mean_pitch sessions)
                                  / real (length sessions)) ^ 2) (map mean_pitch sessions))
                           / real (length sessions - 1))
                    else 0),
                 practice_consistency = real_of_int (t_max - t_min) / 1000000 / 3600\<rparr>)"
    by this
  have less: "real (length sessions - 1) = real (length sessions) - 1"
    using assms(1) by (cases sessions) simp_all
  from agg show ?thesis
    by (simp add: less comp_def)
qed

text \<open>
  The converse: a note that the converter rejects anywhere among the sessions makes the
  aggregator raise.
\<close>

lemma note_to_frequency_rejected:
  "\<not> note_accepted note \<Longrightarrow> note_to_frequency note = Inl ValueError"
  by (rule note_to_frequency_non_digit) (simp_all add: note_accepted_def)

lemma note_to_frequency_outcome:
  "note_to_frequency note = Inl ValueError \<or> (\<exists>f. note_to_frequency note = Inr f)"
  using note_to_frequency_accepted note_to_frequency_rejected by blast

lemma min_loop_raises:
  assumes "\<forall>x \<in> set xs. key x = Inl ValueError \<or> (\<exists>k. key x = Inr k)"
    and "\<exists>x \<in> set xs. key x = Inl ValueError"
  shows "min_loop key best kb xs = Inl ValueError"
  using assms
proof (induction xs arbitrary: best kb)
  case Nil
  then show ?case by simp
next
  case (Cons x xs)
  show ?case
  proof (cases "key x")
    case (Inl ex)
    with Cons.prems(1) have "key x = Inl ValueError" by auto
    then show ?thesis by simp
  next
    case (Inr k)
    with Cons.prems(2) have bad: "\<exists>y \<in> set xs. key y = Inl ValueError" by auto
    from Cons.prems(1) have all: "\<forall>y \<in> set xs. key y = Inl ValueError \<or> (\<exists>k. key y = Inr k)"
      by simp
    from Cons.IH [OF all bad] Inr show ?thesis by simp
  qed
qed

lemma max_loop_raises:
  assumes "\<forall>x \<in> set xs. key x = Inl ValueError \<or> (\<exists>k. key x = Inr k)"
    and "\<exists>x \<in> set xs. key x = Inl ValueError"
  shows "max_loop key best kb xs = Inl ValueError"
  using assms
proof (induction xs arbitrary: best kb)
  case Nil
  then show ?case by simp
next
  case (Cons x xs)
  show ?case
  proof (cases "key x")
    case (Inl ex)
    with Cons.prems(1) have "key x = Inl ValueError" by auto
    then show ?thesis by simp
  next
    case (Inr k)
    with Cons.prems(2) have bad: "\<exists>y \<in> set xs. key y = Inl ValueError" by auto
    from Cons.prems(1) have all: "\<forall>y \<in> set xs. key y = Inl ValueError \<or> (\<exists>k. key y = Inr k)"
      by simp
    from Cons.IH [OF all bad] Inr show ?thesis by simp
  qed
qed

lemma py_min_raises:
  assumes "\<forall>x \<in> set xs. key x = Inl ValueError \<or> (\<exists>k. key x = Inr k)"
    and "\<exists>x \<in> set xs. key x = Inl ValueError"
  shows "py_min xs key = Inl ValueError"
proof (cases xs)
  case Nil
  then show ?thesis by (simp add: py_min_def)
next
  case (Cons x ys)
  show ?thesis
  proof (cases "key x")
    case (Inl ex)
    with assms(1) Cons have "key x = Inl ValueError" by auto
    with Cons show ?thesis by (simp add: py_min_def)
  next
    case (Inr k)
    with assms(2) Cons have bad: "\<exists>y \<in> set ys. key y = Inl ValueError" by auto
    from assms(1) Cons have all: "\<forall>y \<in> set ys. key y = Inl ValueError \<or> (\<exists>k. key y = Inr k)"
      by simp
    from min_loop_raises [OF all bad] Inr Cons show ?thesis by (simp add: py_min_def)
  qed
qed

lemma py_max_raises:
  assumes "\<forall>x \<in> set xs. key x = Inl ValueError \<or> (\<exists>k. key x = Inr k)"
    and "\<exists>x \<in> set xs. key x = Inl ValueError"
  shows "py_max xs key = Inl ValueError"
proof (cases xs)
  case Nil
  then show ?thesis by (simp add: py_max_def)
next
  case (Cons x ys)
  show ?thesis
  proof (cases "key x")
    case (Inl ex)
    with assms(1) Cons have "key x = Inl ValueError" by auto
    with Cons show ?thesis by (simp add: py_max_def)
  next
    case (Inr k)
    with assms(2) Cons have bad: "\<exists>y \<in> set ys. key y = Inl ValueError" by auto
    from assms(1) Cons have all: "\<forall>y \<in> set ys. key y = Inl ValueError \<or> (\<exists>k. key y = Inr k)"
      by simp
    from max_loop_raises [OF all bad] Inr Cons show ?thesis by (simp add: py_max_def)
  qed
qed

lemma aggregate_raises_rejected:
  assumes ne: "sessions \<noteq> []" and ord: "set_order_ok e" and rej: "\<not> notes_accepted sessions"
  shows "aggregate_daily_metrics e sessions = Inl ValueError"
proof -
  from ne have dne: "set_order e (map dynamics sessions) \<noteq> []"
    and vne: "set_order e (map voice_type sessions) \<noteq> []"
    using set_order_nonempty [OF ord] by simp_all
  from py_max_first [OF dne, of "\<lambda>x. int (length (filter (\<lambda>s. dynamics s = x) sessions))"]
  obtain dyn
    where dyn: "py_max (set_order e (map dynamics sessions))
      (\<lambda>x. Inr (int (length (filter (\<lambda>s. dynamics s = x) sessions)))) = Inr dyn"
    by (elim exE conjE)
  from py_max_first [OF vne, of "\<lambda>x. int (length (filter (\<lambda>s. voice_type s = x) sessions))"]
  obtain vt
    where vt: "py_max (set_order e (map voice_type sessions))
      (\<lambda>x. Inr (int (length (filter (\<lambda>s. voice_type s = x) sessions)))) = Inr vt"
    by (elim exE conjE)
  have lows: "\<forall>s \<in> set sessions. note_to_frequency (lowest_note s) = Inl ValueError
      \<or> (\<exists>k. note_to_frequency (lowest_note s) = Inr k)"
    using note_to_frequency_outcome by blast
  have highs: "\<forall>s \<in> set sessions. note_to_frequency (highest_note s) = Inl ValueError
      \<or> (\<exists>k. note_to_frequency (highest_note s) = Inr k)"
    using note_to_frequency_outcome by blast
  show ?thesis
  proof (cases "\<exists>s \<in> set sessions. \<not> note_accepted (lowest_note s)")
    case True
    then have "\<exists>s \<in> set sessions. note_to_frequency (lowest_note s) = Inl ValueError"
      using note_to_frequency_rejected by blast
    from py_min_raises [of sessions "\<lambda>x. note_to_frequency (lowest_note x)", OF lows this]
    have lo: "py_min sessions (\<lambda>x. note_to_frequency (lowest_note x)) = Inl ValueError" .
    show ?thesis
      unfolding aggregate_daily_metrics_def Let_def list.case_eq_if
      by (simp only: ne if_False dyn vt lo sum.case)
  next
    case False
    then have "\<forall>s \<in> set sessions. \<exists>k. note_to_frequency (lowest_note s) = Inr k"
      using note_to_frequency_accepted by blast
    from py_min_total [of sessions "\<lambda>x. note_to_frequency (lowest_note x)", OF ne this]
    obtain lo where lo: "py_min sessions (\<lambda>x. note_to_frequency (lowest_note x)) = Inr lo"
      by (elim exE conjE)
    from rej False have "\<exists>s \<in> set sessions. \<not> note_accepted (highest_note s)"
      by (auto simp: notes_accepted_def list_all_iff)
    then have "\<exists>s \<in> set sessions. note_to_frequency (highest_note s) = Inl ValueError"
      using note_to_frequency_rejected by blast
    from py_max_raises [of sessions "\<lambda>x. note_to_frequency (highest_note x)", OF highs this]
    have hi: "py_max sessions (\<lambda>x. note_to_frequency (highest_note x)) = Inl ValueError" .
    show ?thesis
      unfolding aggregate_daily_metrics_def Let_def list.case_eq_if
      by (simp only: ne if_False dyn vt lo hi sum.case)
  qed
qed

text \<open>
  C5. The claim: for every non-empty list of sessions the aggregator returns daily
  metrics with the count and the four means. On a list whose only session has the
  lowest note \<^verbatim>\<open>Ab\<close> the aggregator raises \<^verbatim>\<open>ValueError\<close>: the note converter raises
  inside the search for the lowest note.
\<close>

theorem aggregate_raises_on_bad_note:
  "[flat_session] \<noteq> [] \<and>
   aggregate_daily_metrics (sample_env flat_store) [flat_session] = Inl ValueError"
  by (simp add: aggregate_daily_metrics_def sample_env_def flat_session_def py_max_def
      py_min_def note_to_frequency_def py_int_char_def is_decimal_digit_def note_names_def)

text \<open>
  C6. The claim: the pitch stability of a single session is 0. A single session whose
  lowest note is \<^verbatim>\<open>Ab\<close> has no pitch stability: the aggregator raises before it gets
  to the deviation.
\<close>

theorem no_stability_on_bad_note:
  "length [flat_session] = 1 \<and>
   map_sum id (map_option pitch_stability)
     (aggregate_daily_metrics (sample_env flat_store) [flat_session]) = Inl ValueError"
  by (simp add: aggregate_daily_metrics_def sample_env_def flat_session_def py_max_def
      py_min_def note_to_frequency_def py_int_char_def is_decimal_digit_def note_names_def)

section \<open>The report assembler\<close>

lemma calculate_improvement_same: "calculate_improvement x x = (0, ''baseline'')"
  by (simp add: calculate_improvement_def)

lemma calculate_improvement_consistent:
  "(snd (calculate_improvement a b) = ''up'' \<longrightarrow> 1 \<le> fst (calculate_improvement a b)) \<and>
   (snd (calculate_improvement a b) = ''down'' \<longrightarrow> fst (calculate_improvement a b) \<le> - 1) \<and>
   (snd (calculate_improvement a b) = ''baseline'' \<longrightarrow> \<bar>fst (calculate_improvement a b)\<bar> < 1) \<and>
   snd (calculate_improvement a b) \<in> {''up'', ''down'', ''baseline''}"
proof (cases "b = 0")
  case True
  then show ?thesis by (simp add: calculate_improvement_zero)
next
  case False
  define q where "q = (a - b) / b * 100"
  from calculate_improvement_unfold [OF False q_def] show ?thesis by auto
qed

text \<open>Without metrics of the previous day the table is fixed up to the current values.\<close>

lemma first_day_table:
  "metric_comparisons dm None =
     [(''mean_pitch'',
       \<lparr>current = mean_pitch_avg dm, previous = None, change = Some 0,
        trend = ''baseline'', improvement_percentage = Some 0\<rparr>),
      (''vibrato_rate'',
       \<lparr>current = vibrato_rate_avg dm, previous = None, change = Some 0,
        trend = ''baseline'', improvement_percentage = Some 0\<rparr>),
      (''jitter'',
       \<lparr>current = jitter_avg dm, previous = None, change = Some 0,
        trend = ''baseline'', improvement_percentage = Some 0\<rparr>),
      (''shimmer'',
       \<lparr>current = shimmer_avg dm, previous = None, change = Some 0,
        trend = ''baseline'', improvement_percentage = Some 0\<rparr>),
      (''total_sessions'',
       \<lparr>current = real_of_int (session_count dm), previous = None,
        change = Some (real_of_int (session_count dm)),
        trend = ''baseline'', improvement_percentage = Some 0\<rparr>)]"
  by (simp add: metric_comparisons_def calculate_improvement_same calculate_improvement_zero)

lemma table_keys:
  "map fst (metric_comparisons dm pm) =
     [''mean_pitch'', ''vibrato_rate'', ''jitter'', ''shimmer'', ''total_sessions'']"
  by (simp add: metric_comparisons_def)

lemma table_entries:
  assumes "(k, c) \<in> set (metric_comparisons dm pm)"
  shows "\<exists>a b. trend c = snd (calculate_improvement a b) \<and>
     improvement_percentage c = Some (fst (calculate_improvement a b))"
proof -
  from assms consider
      "c = snd (metric_comparisons dm pm ! 0)" | "c = snd (metric_comparisons dm pm ! 1)"
    | "c = snd (metric_comparisons dm pm ! 2)" | "c = snd (metric_comparisons dm pm ! 3)"
    | "c = snd (metric_comparisons dm pm ! 4)"
    by (auto simp: metric_comparisons_def)
  then show ?thesis
  proof cases
    case 1
    then show ?thesis
      by (intro exI conjI) (simp_all add: metric_comparisons_def)
  next
    case 2
    then show ?thesis
      by (intro exI conjI) (simp_all add: metric_comparisons_def)
  next
    case 3
    then show ?thesis
      by (intro exI conjI) (simp_all add: metric_comparisons_def)
  next
    case 4
    then show ?thesis
      by (intro exI conjI) (simp_all add: metric_comparisons_def)
  next
    case 5
    then show ?thesis
      by (intro exI conjI) (simp_all add: metric_comparisons_def)
  qed
qed

text \<open>
  The three ways the body of the report generation ends: an exception, the fallback
  report, or a report around the comparison table of today's and the previous metrics.
\<close>

lemma report_body_cases:
  obtains (raised) ex where "generate_daily_report_body e u d = Inl ex"
  | (fallback) "generate_daily_report_body e u d = Inr (generate_fallback_report u d)"
  | (normal) dm pm pd r where "get_daily_sessions e u d \<noteq> []"
      and "aggregate_daily_metrics e (get_daily_sessions e u d) = Inr (Some dm)"
      and "previous_day e d = Inr pd"
      and "(if get_daily_sessions e u pd \<noteq> []
            then aggregate_daily_metrics e (get_daily_sessions e u pd) else Inr None) = Inr pm"
      and "generate_daily_report_body e u d = Inr r"
      and "metrics r = metric_comparisons dm pm"
      and "practice_sessions r = session_count dm"
      and "report_id r = ''report_'' @ u @ ''_'' @ d"
      and "report_date r = d"
      and "\<exists>m c. insights r = fst (get_ai_insights e m c) \<and>
             recommendations r = snd (get_ai_insights e m c)"
proof (cases "get_daily_sessions e u d = []")
  case True
  then have "generate_daily_report_body e u d = Inr (generate_fallback_report u d)"
    by (simp add: generate_daily_report_body_def)
  then show thesis by (rule fallback)
next
  case today: False
  show thesis
  proof (cases "aggregate_daily_metrics e (get_daily_sessions e u d)")
    case (Inl ex)
    with today have "generate_daily_report_body e u d = Inl ex"
      by (simp add: generate_daily_report_body_def)
    then show thesis by (rule raised)
  next
    case (Inr res)
    show thesis
    proof (cases res)
      case None
      with today Inr have "generate_daily_report_body e u d = Inr (generate_fallback_report u d)"
        by (simp add: generate_daily_report_body_def)
      then show thesis by (rule fallback)
    next
      case (Some dm)
      with Inr have agg: "aggregate_daily_metrics e (get_daily_sessions e u d) = Inr (Some dm)"
        by simp
      show thesis
      proof (cases "previous_day e d")
        case (Inl ex)
        with today agg have "generate_daily_report_body e u d = Inl ex"
          by (simp add: generate_daily_report_body_def)
        then show thesis by (rule raised)
      next
        case pd: (Inr pd)
        show thesis
        proof (cases "if get_daily_sessions e u pd \<noteq> []
            then aggregate_daily_metrics e (get_daily_sessions e u pd) else Inr None")
          case (Inl ex)
          with today agg pd have "generate_daily_report_body e u d = Inl ex"
            by (simp add: generate_daily_report_body_def Let_def)
          then show thesis by (rule raised)
        next
          case pm: (Inr pm)
          define r where "r =
            \<lparr>report_date = d,
             report_id = ''report_'' @ u @ ''_'' @ d,
             summary = generate_summary dm pm,
             metrics = metric_comparisons dm pm,
             insights = fst (get_ai_insights e (metrics_data_text e d dm)
               (''User '' @ u @ '' practicing vocal techniques with ''
                  @ str_int (session_count dm) @ '' sessions on '' @ d)),
             recommendations = snd (get_ai_insights e (metrics_data_text e d dm)
               (''User '' @ u @ '' practicing vocal techniques with ''
                  @ str_int (session_count dm) @ '' sessions on '' @ d)),
             practice_sessions = session_count dm,
             total_practice_time = real_of_int (session_count dm * 15),
             best_time_of_day = ''Morning (9-11 AM)''\<rparr>"
          from today agg pd pm have body: "generate_daily_report_body e u d = Inr r"
            unfolding r_def generate_daily_report_body_def Let_def
            by (simp only: if_False sum.case option.case)
          have "metrics r = metric_comparisons dm pm"
            and "practice_sessions r = session_count dm"
            and "report_id r = ''report_'' @ u @ ''_'' @ d"
            and "report_date r = d"
            and "\<exists>m c. insights r = fst (get_ai_insights e m c) \<and>
              recommendations r = snd (get_ai_insights e m c)"
            by (simp_all add: r_def) blast
          with today agg pd pm body show thesis by (rule normal)
        qed
      qed
    qed
  qed
qed

lemmas sample_defs =
  sample_env_def first_day_store_def two_day_store_def flat_store_def broken_store_def
  sample_previous_day_def soft_session_def loud_session_def flat_session_def

lemmas evaluation_defs =
  generate_daily_report_def generate_daily_report_body_def get_daily_sessions_def
  aggregate_daily_metrics_def py_max_def py_min_def note_to_frequency_def py_int_char_def
  is_decimal_digit_def note_names_def statistics_mean_def statistics_stdev_def
  metric_comparisons_def calculate_improvement_def report_metric_def
  generate_fallback_report_def

lemma fallback_metrics: "metrics (generate_fallback_report u d) = []"
  by (simp add: generate_fallback_report_def)

text \<open>
  C2, as the source has it. With sessions today and none on the previous day, every
  comparison of the report has no previous value, the trend \<^verbatim>\<open>baseline\<close> and an
  improvement of 0; the change is 0 for the four vocal metrics, and for
  \<^verbatim>\<open>total_sessions\<close>, where the source stands 0 in for the missing previous count, it
  is today's number of sessions. The table is empty (fallback report) or has the five
  keys.
\<close>

theorem first_day_comparisons:
  assumes "get_daily_sessions e u d \<noteq> []"
    and "\<forall>pd. previous_day e d = Inr pd \<longrightarrow> get_daily_sessions e u pd = []"
  shows "\<exists>r. generate_daily_report e u d = Inr r \<and>
    (metrics r = [] \<or>
     map fst (metrics r) =
       [''mean_pitch'', ''vibrato_rate'', ''jitter'', ''shimmer'', ''total_sessions'']) \<and>
    (\<forall>(k, c) \<in> set (metrics r).
       previous c = None \<and> trend c = ''baseline'' \<and> improvement_percentage c = Some 0 \<and>
       change c = Some (if k = ''total_sessions'' then real_of_int (practice_sessions r) else 0))"
proof (cases rule: report_body_cases [of e u d])
  case (raised ex)
  then have "generate_daily_report e u d = Inr (generate_fallback_report u d)"
    by (simp add: generate_daily_report_def)
  then show ?thesis by (simp add: fallback_metrics)
next
  case fallback
  then have "generate_daily_report e u d = Inr (generate_fallback_report u d)"
    by (simp add: generate_daily_report_def)
  then show ?thesis by (simp add: fallback_metrics)
next
  case (normal dm pm pd r)
  from assms(2) normal(3) have "get_daily_sessions e u pd = []" by simp
  with normal(4) have "pm = None" by simp
  with normal(6) have table: "metrics r = metric_comparisons dm None" by simp
  from normal(5) have run: "generate_daily_report e u d = Inr r"
    by (simp add: generate_daily_report_def)
  have keys: "map fst (metrics r) =
      [''mean_pitch'', ''vibrato_rate'', ''jitter'', ''shimmer'', ''total_sessions'']"
    by (simp add: table table_keys)
  have entries: "\<forall>(k, c) \<in> set (metrics r).
       previous c = None \<and> trend c = ''baseline'' \<and> improvement_percentage c = Some 0 \<and>
       change c = Some (if k = ''total_sessions'' then real_of_int (practice_sessions r) else 0)"
    by (simp add: table first_day_table normal(7))
  from run keys entries show ?thesis
    by (intro exI [of _ r] conjI disjI2)
qed

lemma first_day_sessions:
  "get_daily_sessions (sample_env first_day_store) u ''2024-01-02'' = [soft_session, loud_session]"
  "get_daily_sessions (sample_env first_day_store) u ''2024-01-01'' = []"
  "previous_day (sample_env first_day_store) ''2024-01-02'' = Inr ''2024-01-01''"
  by (simp_all add: get_daily_sessions_def sample_env_def first_day_store_def
      sample_previous_day_def)

theorem first_day_comparisons_witness:
  "get_daily_sessions (sample_env first_day_store) ''alice'' ''2024-01-02'' \<noteq> [] \<and>
   previous_day (sample_env first_day_store) ''2024-01-02'' = Inr ''2024-01-01'' \<and>
   get_daily_sessions (sample_env first_day_store) ''alice'' ''2024-01-01'' = [] \<and>
   (\<exists>r. generate_daily_report (sample_env first_day_store) ''alice'' ''2024-01-02'' = Inr r \<and>
      (\<forall>(k, c) \<in> set (metrics r).
         previous c = None \<and> trend c = ''baseline'' \<and> improvement_percentage c = Some 0 \<and>
         change c = Some (if k = ''total_sessions'' then real_of_int (practice_sessions r) else 0)))"
proof -
  have today: "get_daily_sessions (sample_env first_day_store) ''alice'' ''2024-01-02'' \<noteq> []"
    by (simp add: first_day_sessions)
  have prior: "\<forall>pd. previous_day (sample_env first_day_store) ''2024-01-02'' = Inr pd \<longrightarrow>
      get_daily_sessions (sample_env first_day_store) ''alice'' pd = []"
    by (simp add: first_day_sessions)
  from first_day_comparisons [OF today prior] today first_day_sessions
  show ?thesis by blast
qed

text \<open>
  C2 as stated fails on \<^verbatim>\<open>total_sessions\<close>: with two sessions today and none the day
  before, its change is 2, not 0.
\<close>

theorem first_day_total_sessions_counterexample:
  "get_daily_sessions (sample_env first_day_store) ''alice'' ''2024-01-02''
     = [soft_session, loud_session] \<and>
   previous_day (sample_env first_day_store) ''2024-01-02'' = Inr ''2024-01-01'' \<and>
   get_daily_sessions (sample_env first_day_store) ''alice'' ''2024-01-01'' = [] \<and>
   report_metric (generate_daily_report (sample_env first_day_store) ''alice'' ''2024-01-02'')
       ''total_sessions'' =
     Some \<lparr>current = 2, previous = None, change = Some 2, trend = ''baseline'',
           improvement_percentage = Some 0\<rparr>"
  by (simp add: evaluation_defs sample_defs Let_def)

text \<open>
  A failure of the text-generation service stays inside \<^verbatim>\<open>_get_ai_insights\<close>: a request
  that raises, a status other than 200, a body whose content cannot be read and a
  content that parses to something other than a dictionary all give the fallback
  insights. From a dictionary the values under the two keys are passed on unchanged,
  an empty list standing in for a missing key.
\<close>

lemma get_ai_insights_request_raises:
  "use_ai e \<Longrightarrow> asi1_post e m c = Inl ex \<Longrightarrow> get_ai_insights e m c = get_fallback_insights"
  by (simp add: get_ai_insights_def)

lemma get_ai_insights_bad_status:
  "use_ai e \<Longrightarrow> asi1_post e m c = Inr (status, body) \<Longrightarrow> status \<noteq> 200 \<Longrightarrow>
   get_ai_insights e m c = get_fallback_insights"
  by (simp add: get_ai_insights_def)

lemma get_ai_insights_bad_body:
  "use_ai e \<Longrightarrow> asi1_post e m c = Inr (200, Inl ex) \<Longrightarrow>
   get_ai_insights e m c = get_fallback_insights"
  by (simp add: get_ai_insights_def)

lemma get_ai_insights_no_dictionary:
  assumes "use_ai e" and "asi1_post e m c = Inr (200, Inr (Parsed v))"
    and "\<forall>items. v \<noteq> JObject items"
  shows "get_ai_insights e m c = get_fallback_insights"
proof (cases v)
  case (JObject items)
  with assms(3) show ?thesis by blast
qed (use assms(1,2) in \<open>simp_all add: get_ai_insights_def\<close>)

lemma get_ai_insights_dictionary:
  "use_ai e \<Longrightarrow> asi1_post e m c = Inr (200, Inr (Parsed (JObject items))) \<Longrightarrow>
   get_ai_insights e m c =
     (py_get items ''insights'' (JArray []), py_get items ''recommendations'' (JArray []))"
  by (simp add: get_ai_insights_def)

lemma get_ai_insights_missing_keys:
  "use_ai e \<Longrightarrow> asi1_post e m c = Inr (200, Inr (Parsed (JObject []))) \<Longrightarrow>
   get_ai_insights e m c = (JArray [], JArray [])"
  by (simp add: get_ai_insights_def py_get_def)

lemma is_str_list_py_str_list: "is_str_list (py_str_list xs)"
  by (simp add: py_str_list_def list_all_iff)

lemma get_ai_insights_not_json:
  "use_ai e \<Longrightarrow> asi1_post e m c = Inr (200, Inr (NotJson content)) \<Longrightarrow>
   is_str_list (fst (get_ai_insights e m c)) \<and> is_str_list (snd (get_ai_insights e m c))"
  by (simp add: get_ai_insights_def Let_def is_str_list_py_str_list)

lemma get_ai_insights_mock:
  "\<not> use_ai e \<Longrightarrow>
   is_str_list (fst (get_ai_insights e m c)) \<and> is_str_list (snd (get_ai_insights e m c))"
  by (simp add: get_ai_insights_def is_str_list_py_str_list)

lemma fallback_insights_valid:
  "is_str_list (fst get_fallback_insights)" "is_str_list (snd get_fallback_insights)"
  by (simp_all add: get_fallback_insights_def is_str_list_py_str_list)

text \<open>
  The insights are lists of strings whenever the dictionary that the service sends has
  lists of strings under the two keys, or lacks them.
\<close>

lemma get_ai_insights_valid:
  assumes typed: "\<And>items. asi1_post e m c = Inr (200, Inr (Parsed (JObject items))) \<Longrightarrow>
      is_str_list (py_get items ''insights'' (JArray [])) \<and>
      is_str_list (py_get items ''recommendations'' (JArray []))"
  shows "is_str_list (fst (get_ai_insights e m c)) \<and> is_str_list (snd (get_ai_insights e m c))"
proof (cases "use_ai e")
  case False
  from get_ai_insights_mock [OF False, of m c] show ?thesis .
next
  case on: True
  show ?thesis
  proof (cases "asi1_post e m c")
    case (Inl ex)
    from get_ai_insights_request_raises [OF on Inl] show ?thesis
      by (simp add: fallback_insights_valid)
  next
    case (Inr reply)
    obtain status body where reply: "reply = (status, body)" by (cases reply)
    show ?thesis
    proof (cases "status = 200")
      case False
      from get_ai_insights_bad_status [OF on Inr [unfolded reply] False] show ?thesis
        by (simp add: fallback_insights_valid)
    next
      case True
      with Inr reply have post: "asi1_post e m c = Inr (200, body)" by simp
      show ?thesis
      proof (cases body)
        case (Inl ex)
        from get_ai_insights_bad_body [OF on post [unfolded Inl]] show ?thesis
          by (simp add: fallback_insights_valid)
      next
        case content: (Inr content)
        show ?thesis
        proof (cases content)
          case (NotJson raw)
          from get_ai_insights_not_json [OF on post [unfolded content NotJson]] show ?thesis .
        next
          case (Parsed v)
          show ?thesis
          proof (cases "\<exists>items. v = JObject items")
            case True
            then obtain items where v: "v = JObject items" ..
            from post content Parsed v
            have dict: "asi1_post e m c = Inr (200, Inr (Parsed (JObject items)))" by simp
            from get_ai_insights_dictionary [OF on dict] typed [OF dict] show ?thesis by simp
          next
            case False
            then have "\<forall>items. v \<noteq> JObject items" by simp
            from get_ai_insights_no_dictionary [OF on post [unfolded content Parsed] this]
            show ?thesis by (simp add: fallback_insights_valid)
          qed
        qed
      qed
    qed
  qed
qed

lemma fallback_report_valid: "structurally_valid (generate_fallback_report u d)"
  by (simp add: structurally_valid_def generate_fallback_report_def is_str_list_py_str_list)

text \<open>
  The report generation returns a report on every user, every date and every behaviour
  of the collaborators and the runtime: the report carries the date asked for and the
  id of a fallback report or of a normal report, and an exception that leaves the body
  of the \<^verbatim>\<open>try\<close> block ends in the fallback report.
\<close>

lemma generate_daily_report_returns:
  "(\<exists>r. generate_daily_report e u d = Inr r \<and> report_date r = d \<and>
      (report_id r = ''fallback_'' @ u @ ''_'' @ d \<or> report_id r = ''report_'' @ u @ ''_'' @ d)) \<and>
   (\<forall>ex. generate_daily_report_body e u d = Inl ex \<longrightarrow>
      generate_daily_report e u d = Inr (generate_fallback_report u d))"
proof (cases rule: report_body_cases [of e u d])
  case (raised ex)
  then have "generate_daily_report e u d = Inr (generate_fallback_report u d)"
    by (simp add: generate_daily_report_def)
  then show ?thesis by (simp add: generate_fallback_report_def)
next
  case fallback
  then have "generate_daily_report e u d = Inr (generate_fallback_report u d)"
    by (simp add: generate_daily_report_def)
  with fallback show ?thesis by (simp add: generate_fallback_report_def)
next
  case (normal dm pm pd r)
  from normal(5) have "generate_daily_report e u d = Inr r"
    by (simp add: generate_daily_report_def)
  with normal(5) normal(8) normal(9) show ?thesis by simp
qed

lemma generate_daily_report_returns_examples:
  "generate_daily_report_body (sample_env flat_store) ''alice'' ''2024-01-02'' = Inl ValueError \<and>
   generate_daily_report (sample_env flat_store) ''alice'' ''2024-01-02''
     = Inr (generate_fallback_report ''alice'' ''2024-01-02'') \<and>
   (\<exists>r. generate_daily_report (sample_env broken_store) ''alice'' ''2024-01-02'' = Inr r) \<and>
   (\<exists>r. generate_daily_report online_env ''alice'' ''2024-01-02'' = Inr r \<and>
      report_id r = ''report_alice_2024-01-02'' \<and> insights r = fst get_fallback_insights)"
proof -
  have raised: "generate_daily_report_body (sample_env flat_store) ''alice'' ''2024-01-02''
      = Inl ValueError"
    by (simp add: generate_daily_report_body_def get_daily_sessions_def aggregate_daily_metrics_def
        py_max_def py_min_def note_to_frequency_def py_int_char_def is_decimal_digit_def
        note_names_def sample_defs)
  have online: "map_sum id insights (generate_daily_report online_env ''alice'' ''2024-01-02'')
      = Inr (fst get_fallback_insights)"
    "map_sum id report_id (generate_daily_report online_env ''alice'' ''2024-01-02'')
      = Inr ''report_alice_2024-01-02''"
    by (simp_all add: evaluation_defs sample_defs online_env_def timeout_post_def
        get_ai_insights_def Let_def)
  from generate_daily_report_returns [of online_env "''alice''" "''2024-01-02''"]
  obtain r where "generate_daily_report online_env ''alice'' ''2024-01-02'' = Inr r"
    by (elim exE conjE)
  with online have served: "\<exists>r. generate_daily_report online_env ''alice'' ''2024-01-02'' = Inr r \<and>
      report_id r = ''report_alice_2024-01-02'' \<and> insights r = fst get_fallback_insights"
    by simp
  from generate_daily_report_returns [of "sample_env flat_store" "''alice''" "''2024-01-02''"]
    generate_daily_report_returns [of "sample_env broken_store" "''alice''" "''2024-01-02''"]
    raised served
  show ?thesis by blast
qed

text \<open>
  The report is structurally valid whenever every dictionary that the service sends has
  lists of strings under the two keys, or lacks them.
\<close>

lemma report_structurally_valid:
  assumes typed: "\<And>m c items. asi1_post e m c = Inr (200, Inr (Parsed (JObject items))) \<Longrightarrow>
      is_str_list (py_get items ''insights'' (JArray [])) \<and>
      is_str_list (py_get items ''recommendations'' (JArray []))"
  shows "\<exists>r. generate_daily_report e u d = Inr r \<and> structurally_valid r"
proof (cases rule: report_body_cases [of e u d])
  case (raised ex)
  then have "generate_daily_report e u d = Inr (generate_fallback_report u d)"
    by (simp add: generate_daily_report_def)
  then show ?thesis by (simp add: fallback_report_valid)
next
  case fallback
  then have "generate_daily_report e u d = Inr (generate_fallback_report u d)"
    by (simp add: generate_daily_report_def)
  then show ?thesis by (simp add: fallback_report_valid)
next
  case (normal dm pm pd r)
  from normal(5) have run: "generate_daily_report e u d = Inr r"
    by (simp add: generate_daily_report_def)
  from normal(10) obtain m c
    where i: "insights r = fst (get_ai_insights e m c)"
      and rc: "recommendations r = snd (get_ai_insights e m c)"
    by (elim exE conjE)
  from get_ai_insights_valid [of e m c, OF typed] i rc
  have "structurally_valid r" by (simp add: structurally_valid_def)
  with run show ?thesis by simp
qed

text \<open>
  C8. The claim: whatever the collaborators do, a malformed payload of the
  text-generation service included, the report generation returns a structurally valid
  report. It does return a report on every input. But when the service answers with
  status 200 and a JSON object that has a string under \<^verbatim>\<open>insights\<close> and \<^verbatim>\<open>null\<close> under
  \<^verbatim>\<open>recommendations\<close>, the source passes both values on unchecked: the report has a
  string where its insights should be and \<^verbatim>\<open>None\<close> where its recommendations should be,
  and not the fallback pair.
\<close>

theorem mistyped_payload_report:
  "map_sum id insights (generate_daily_report mistyped_env ''alice'' ''2024-01-02'')
     = Inr (JString ''practice more'') \<and>
   map_sum id recommendations (generate_daily_report mistyped_env ''alice'' ''2024-01-02'')
     = Inr JNull \<and>
   map_sum id structurally_valid (generate_daily_report mistyped_env ''alice'' ''2024-01-02'')
     = Inr False"
  by (simp add: evaluation_defs sample_defs mistyped_env_def mistyped_post_def
      get_ai_insights_def py_get_def structurally_valid_def Let_def)

text \<open>
  C9. When the store yields no sessions for the day, the report is the fallback report:
  its id starts with \<^verbatim>\<open>fallback_\<close> and not with \<^verbatim>\<open>report_\<close>, its table of metrics is
  empty, it counts 0 sessions and 0 minutes, and its insights and recommendations are
  non-empty lists of three strings each.
\<close>

theorem no_sessions_fallback_report:
  assumes "get_daily_sessions e u d = []"
  shows "\<exists>r. generate_daily_report e u d = Inr r \<and>
    take 9 (report_id r) = ''fallback_'' \<and> take 7 (report_id r) \<noteq> ''report_'' \<and>
    metrics r = [] \<and> practice_sessions r = 0 \<and> total_practice_time r = 0 \<and>
    (\<exists>xs. insights r = py_str_list xs \<and> xs \<noteq> [] \<and> length xs = 3) \<and>
    (\<exists>ys. recommendations r = py_str_list ys \<and> ys \<noteq> [] \<and> length ys = 3)"
proof -
  from assms have run: "generate_daily_report e u d = Inr (generate_fallback_report u d)"
    by (simp add: generate_daily_report_def generate_daily_report_body_def)
  have plain: "take 9 (report_id (generate_fallback_report u d)) = ''fallback_''"
    "take 7 (report_id (generate_fallback_report u d)) \<noteq> ''report_''"
    "metrics (generate_fallback_report u d) = []"
    "practice_sessions (generate_fallback_report u d) = 0"
    "total_practice_time (generate_fallback_report u d) = 0"
    by (simp_all add: generate_fallback_report_def)
  have ins: "\<exists>xs. insights (generate_fallback_report u d) = py_str_list xs \<and> xs \<noteq> [] \<and>
      length xs = 3"
    unfolding generate_fallback_report_def by (intro exI conjI) simp+
  have recs: "\<exists>ys. recommendations (generate_fallback_report u d) = py_str_list ys \<and>
      ys \<noteq> [] \<and> length ys = 3"
    unfolding generate_fallback_report_def by (intro exI conjI) simp+
  from run plain ins recs show ?thesis
    by (intro exI [of _ "generate_fallback_report u d"] conjI)
qed

theorem no_sessions_fallback_report_witness:
  "get_daily_sessions (sample_env broken_store) ''alice'' ''2024-01-02'' = [] \<and>
   get_daily_sessions (sample_env first_day_store) ''alice'' ''2024-01-05'' = [] \<and>
   (\<exists>r. generate_daily_report (sample_env broken_store) ''alice'' ''2024-01-02'' = Inr r \<and>
      take 9 (report_id r) = ''fallback_'' \<and> metrics r = [] \<and>
      (\<exists>xs. insights r = py_str_list xs \<and> length xs = 3)) \<and>
   (\<exists>r. generate_daily_report (sample_env first_day_store) ''alice'' ''2024-01-05'' = Inr r \<and>
      take 9 (report_id r) = ''fallback_'' \<and> metrics r = [] \<and>
      (\<exists>xs. insights r = py_str_list xs \<and> length xs = 3))"
proof -
  have broken: "get_daily_sessions (sample_env broken_store) ''alice'' ''2024-01-02'' = []"
    by (simp add: get_daily_sessions_def sample_env_def broken_store_def)
  have none: "get_daily_sessions (sample_env first_day_store) ''alice'' ''2024-01-05'' = []"
    by (simp add: get_daily_sessions_def sample_env_def first_day_store_def)
  from no_sessions_fallback_report [OF broken] no_sessions_fallback_report [OF none] broken none
  show ?thesis by blast
qed

text \<open>
  C10. In every comparison of a report the trend and the improvement percentage agree:
  \<^verbatim>\<open>up\<close> goes with at least 1, \<^verbatim>\<open>down\<close> with at most -1, \<^verbatim>\<open>baseline\<close> with an
  absolute value below 1, and there is no other trend.
\<close>

theorem report_trend_consistent:
  "\<exists>r. generate_daily_report e u d = Inr r \<and>
     (\<forall>(k, c) \<in> set (metrics r).
        \<exists>p. improvement_percentage c = Some p \<and>
          (trend c = ''up'' \<longrightarrow> 1 \<le> p) \<and>
          (trend c = ''down'' \<longrightarrow> p \<le> - 1) \<and>
          (trend c = ''baseline'' \<longrightarrow> \<bar>p\<bar> < 1) \<and>
          trend c \<in> {''up'', ''down'', ''baseline''})"
proof (cases rule: report_body_cases [of e u d])
  case (raised ex)
  then have "generate_daily_report e u d = Inr (generate_fallback_report u d)"
    by (simp add: generate_daily_report_def)
  then show ?thesis by (simp add: fallback_metrics)
next
  case fallback
  then have "generate_daily_report e u d = Inr (generate_fallback_report u d)"
    by (simp add: generate_daily_report_def)
  then show ?thesis by (simp add: fallback_metrics)
next
  case (normal dm pm pd r)
  from normal(5) have run: "generate_daily_report e u d = Inr r"
    by (simp add: generate_daily_report_def)
  have "\<exists>p. improvement_percentage c = Some p \<and>
          (trend c = ''up'' \<longrightarrow> 1 \<le> p) \<and>
          (trend c = ''down'' \<longrightarrow> p \<le> - 1) \<and>
          (trend c = ''baseline'' \<longrightarrow> \<bar>p\<bar> < 1) \<and>
          trend c \<in> {''up'', ''down'', ''baseline''}"
    if "(k, c) \<in> set (metrics r)" for k c
  proof -
    from that normal(6) have "(k, c) \<in> set (metric_comparisons dm pm)" by simp
    from table_entries [OF this] obtain a b
      where t: "trend c = snd (calculate_improvement a b)"
        and p: "improvement_percentage c = Some (fst (calculate_improvement a b))"
      by blast
    from calculate_improvement_consistent [of a b] show ?thesis
      unfolding t p by blast
  qed
  then have "\<forall>(k, c) \<in> set (metrics r).
        \<exists>p. improvement_percentage c = Some p \<and>
          (trend c = ''up'' \<longrightarrow> 1 \<le> p) \<and>
          (trend c = ''down'' \<longrightarrow> p \<le> - 1) \<and>
          (trend c = ''baseline'' \<longrightarrow> \<bar>p\<bar> < 1) \<and>
          trend c \<in> {''up'', ''down'', ''baseline''}"
    by blast
  with run show ?thesis by (intro exI [of _ r] conjI)
qed

theorem report_trend_consistent_witness:
  "report_metric (generate_daily_report (sample_env two_day_store) ''alice'' ''2024-01-02'')
       ''total_sessions'' =
     Some \<lparr>current = 2, previous = Some 1, change = Some 1, trend = ''up'',
           improvement_percentage = Some 100\<rparr> \<and>
   (\<exists>r. generate_daily_report (sample_env two_day_store) ''alice'' ''2024-01-02'' = Inr r \<and>
     (\<forall>(k, c) \<in> set (metrics r).
        \<exists>p. improvement_percentage c = Some p \<and>
          (trend c = ''up'' \<longrightarrow> 1 \<le> p) \<and>
          (trend c = ''down'' \<longrightarrow> p \<le> - 1) \<and>
          (trend c = ''baseline'' \<longrightarrow> \<bar>p\<bar> < 1)))"
proof -
  have entry: "report_metric
      (generate_daily_report (sample_env two_day_store) ''alice'' ''2024-01-02'')
       ''total_sessions'' =
     Some \<lparr>current = 2, previous = Some 1, change = Some 1, trend = ''up'',
           improvement_percentage = Some 100\<rparr>"
    by (simp add: evaluation_defs sample_defs Let_def)
  from report_trend_consistent [of "sample_env two_day_store" "''alice''" "''2024-01-02''"]
  obtain r where run: "generate_daily_report (sample_env two_day_store) ''alice'' ''2024-01-02''
        = Inr r"
    and all: "\<forall>(k, c) \<in> set (metrics r).
        \<exists>p. improvement_percentage c = Some p \<and>
          (trend c = ''up'' \<longrightarrow> 1 \<le> p) \<and>
          (trend c = ''down'' \<longrightarrow> p \<le> - 1) \<and>
          (trend c = ''baseline'' \<longrightarrow> \<bar>p\<bar> < 1) \<and>
          trend c \<in> {''up'', ''down'', ''baseline''}"
    by (elim exE conjE)
  from all have "\<forall>(k, c) \<in> set (metrics r).
        \<exists>p. improvement_percentage c = Some p \<and>
          (trend c = ''up'' \<longrightarrow> 1 \<le> p) \<and>
          (trend c = ''down'' \<longrightarrow> p \<le> - 1) \<and>
          (trend c = ''baseline'' \<longrightarrow> \<bar>p\<bar> < 1)"
    by fast
  with run entry show ?thesis by (intro conjI exI [of _ r])
qed

end
